theory Spec2Isabelle
  imports Main
begin

section \<open>The web search tool of \<^verbatim>\<open>server.py\<close>\<close>

text \<open>
  The module defines two functions, \<^verbatim>\<open>search_with_tavily\<close> and \<^verbatim>\<open>search_web\<close>. They talk to
  three outside services (the FireCrawl search, the Tavily search and the chat completion
  endpoint). The services are the parameters of the model: an \<open>environment\<close> says what each
  of them answers. Every function that reaches a service returns, next to its own value, the
  list of the calls it made, in the order it made them; a caller appends the lists of the
  functions it applies.

  Python strings are modelled as \<open>string\<close>; a \<open>char\<close> stands for one character of the Python
  string (a code point below 256), so that \<open>length\<close> is Python's \<^verbatim>\<open>len\<close>. The lines written to
  \<^verbatim>\<open>sys.stderr\<close> are not modelled.
\<close>

subsection \<open>Data\<close>

text \<open>
  An instance of Python's \<^verbatim>\<open>Exception\<close>, the class both handlers name, with its class name.
\<close>

datatype py_exception = PyException string

text \<open>
  The values an attribute of a FireCrawl hit, a value of a Tavily hit and a field of a record
  can hold: \<^verbatim>\<open>None\<close>, a string or an integer. The code reads them without asking for their
  type.
\<close>

datatype py_value = PyNone | PyStr string | PyInt int

text \<open>
  The dictionary \<^verbatim>\<open>{'title': ..., 'url': ..., 'content': ...}\<close> both adapters append to
  \<^verbatim>\<open>results\<close>. The three keys are always set, so the defaults of the \<^verbatim>\<open>result.get\<close> calls of
  the formatting loops (lines 114-116 and 129-130) are never used.
\<close>

record search_record =
  title :: py_value
  url :: py_value
  content :: py_value

text \<open>
  One hit of the FireCrawl response, read with \<^verbatim>\<open>getattr(result, name, None)\<close>: an attribute
  that is missing reads as \<open>PyNone\<close>.
\<close>

record firecrawl_hit =
  hit_title :: py_value
  hit_url :: py_value
  hit_markdown :: py_value
  hit_content :: py_value

text \<open>
  The FireCrawl response: \<open>fc_data\<close> is \<open>None\<close> when the object has no attribute \<^verbatim>\<open>data\<close>, or
  when it holds \<^verbatim>\<open>None\<close> or something that is not a list.
\<close>

record firecrawl_response =
  fc_data :: "firecrawl_hit list option"

text \<open>
  A Tavily hit is a dictionary; the response is a dictionary whose key \<^verbatim>\<open>'results'\<close> may be
  missing.
\<close>

type_synonym tavily_hit = "string \<rightharpoonup> py_value"

record tavily_response =
  tv_results :: "tavily_hit list option"

text \<open>
  The request of \<^verbatim>\<open>chat.completions.create\<close> (its \<^verbatim>\<open>temperature=0.3\<close> is a floating point
  constant and is left out), and the part of the response the code reads:
  \<^verbatim>\<open>response.choices[i].message.content\<close>, which may be \<^verbatim>\<open>None\<close>.
\<close>

record chat_request =
  model :: string
  messages :: "(string \<times> string) list"
  max_tokens :: nat

record chat_response =
  choices :: "string option list"

text \<open>
  The outside world. Each of the three clients is built by a constructor that may raise
  (lines 52, 58 and 21), and each search and the completion may raise when it is called.
\<close>

record environment =
  openai_client_init :: "py_exception option"
  firecrawl_client_init :: "py_exception option"
  firecrawl_search :: "string \<Rightarrow> py_exception + firecrawl_response"
  tavily_client_init :: "py_exception option"
  tavily_search :: "string \<Rightarrow> int \<Rightarrow> py_exception + tavily_response"
  chat_completion :: "chat_request \<Rightarrow> py_exception + chat_response"

text \<open>
  What is recorded: \<^verbatim>\<open>firecrawl_app.search(query)\<close> (line 59), the entry into
  \<^verbatim>\<open>search_with_tavily(query, max_results)\<close> (line 18),
  \<^verbatim>\<open>tavily_client.search(query=, max_results=, include_answer=, include_images=)\<close> (line 22)
  and \<^verbatim>\<open>chat.completions.create(...)\<close> (line 149).
\<close>

datatype call =
  FirecrawlSearch string
| SearchWithTavily string int
| TavilySearch string int bool bool
| ChatCompletion chat_request

text \<open>
  The three calls of a service. Each returns the answer of the environment and the one call
  it made.
\<close>

definition call_firecrawl_search ::
    "environment \<Rightarrow> string \<Rightarrow> (py_exception + firecrawl_response) \<times> call list" where
  "call_firecrawl_search env query = (firecrawl_search env query, [FirecrawlSearch query])"

definition call_tavily_search ::
    "environment \<Rightarrow> string \<Rightarrow> int \<Rightarrow> (py_exception + tavily_response) \<times> call list" where
  "call_tavily_search env query max_results =
     (tavily_search env query max_results, [TavilySearch query max_results False False])"

definition call_chat_completion ::
    "environment \<Rightarrow> chat_request \<Rightarrow> (py_exception + chat_response) \<times> call list" where
  "call_chat_completion env request = (chat_completion env request, [ChatCompletion request])"

subsection \<open>Python's primitives\<close>

text \<open>Truth of a value: \<^verbatim>\<open>None\<close>, the empty string and 0 are falsy.\<close>

definition truthy :: "py_value \<Rightarrow> bool" where
  "truthy v = (case v of PyNone \<Rightarrow> False | PyStr s \<Rightarrow> s \<noteq> [] | PyInt i \<Rightarrow> i \<noteq> 0)"

text \<open>\<^verbatim>\<open>a or b\<close>.\<close>

definition py_or :: "py_value \<Rightarrow> py_value \<Rightarrow> py_value" where
  "py_or a b = (if truthy a then a else b)"

text \<open>\<^verbatim>\<open>len(v)\<close>: \<^verbatim>\<open>None\<close> and an integer have no length.\<close>

definition py_len :: "py_value \<Rightarrow> py_exception + nat" where
  "py_len v =
     (case v of
        PyStr s \<Rightarrow> Inr (length s)
      | PyNone \<Rightarrow> Inl (PyException ''TypeError'')
      | PyInt i \<Rightarrow> Inl (PyException ''TypeError''))"

text \<open>\<^verbatim>\<open>d.get(key, default)\<close>.\<close>

definition dict_get :: "('k \<rightharpoonup> 'v) \<Rightarrow> 'k \<Rightarrow> 'v \<Rightarrow> 'v" where
  "dict_get d k dflt = (case d k of None \<Rightarrow> dflt | Some v \<Rightarrow> v)"

text \<open>
  \<^verbatim>\<open>xs[:n]\<close> for a Python integer \<open>n\<close>: a negative bound counts from the end of the list.
\<close>

definition py_slice_to :: "'a list \<Rightarrow> int \<Rightarrow> 'a list" where
  "py_slice_to xs n =
     (if 0 \<le> n then take (nat n) xs else take (length xs - nat (- n)) xs)"

text \<open>The decimal digits of a natural number, as an f-string prints an index.\<close>

fun string_of_nat :: "nat \<Rightarrow> string" where
  "string_of_nat n =
     (if n < 10 then [''0123456789'' ! n]
      else string_of_nat (n div 10) @ [''0123456789'' ! (n mod 10)])"

declare string_of_nat.simps [simp del]

text \<open>\<^verbatim>\<open>str(v)\<close>, which is also what an f-string writes for \<open>v\<close>.\<close>

definition py_str :: "py_value \<Rightarrow> string" where
  "py_str v =
     (case v of
        PyNone \<Rightarrow> ''None''
      | PyStr s \<Rightarrow> s
      | PyInt i \<Rightarrow> if i < 0 then ''-'' @ string_of_nat (nat (- i)) else string_of_nat (nat i))"

text \<open>
  \<^verbatim>\<open>str.strip()\<close>: the characters below 256 for which \<^verbatim>\<open>str.isspace\<close> holds are removed at
  both ends.
\<close>

definition is_space :: "char \<Rightarrow> bool" where
  "is_space c \<longleftrightarrow>
     c \<in> set [CHR 0x09, CHR 0x0A, CHR 0x0B, CHR 0x0C, CHR 0x0D, CHR 0x1C, CHR 0x1D,
              CHR 0x1E, CHR 0x1F, CHR 0x20, CHR 0x85, CHR 0xA0]"

definition strip :: "string \<Rightarrow> string" where
  "strip s = rev (dropWhile is_space (rev (dropWhile is_space s)))"

subsection \<open>The fallback adapter: \<^verbatim>\<open>search_with_tavily\<close> (lines 18-40)\<close>

definition tavily_record :: "tavily_hit \<Rightarrow> search_record" where
  "tavily_record result =
     \<lparr>title = dict_get result ''title'' (PyStr ''No title''),
      url = dict_get result ''url'' (PyStr ''No URL''),
      content = dict_get result ''content'' (PyStr ''No content'')\<rparr>"

text \<open>The loop of lines 29-35, with the list \<^verbatim>\<open>results\<close> as accumulator.\<close>

fun tavily_loop :: "tavily_hit list \<Rightarrow> search_record list \<Rightarrow> search_record list" where
  "tavily_loop [] results = results"
| "tavily_loop (result # rest) results = tavily_loop rest (results @ [tavily_record result])"

text \<open>
  The function records its own entry, builds the client and calls the search. Whatever is
  raised inside the \<^verbatim>\<open>try\<close> makes it return the empty list (line 40).
\<close>

definition search_with_tavily ::
    "environment \<Rightarrow> string \<Rightarrow> int \<Rightarrow> search_record list \<times> call list" where
  "search_with_tavily env query max_results =
     (let entry = [SearchWithTavily query max_results]
      in case tavily_client_init env of
           Some e \<Rightarrow> ([], entry)
         | None \<Rightarrow>
             (let (answer, calls) = call_tavily_search env query max_results
              in case answer of
                   Inl e \<Rightarrow> ([], entry @ calls)
                 | Inr search_result \<Rightarrow>
                     (tavily_loop
                        (case tv_results search_result of None \<Rightarrow> [] | Some rs \<Rightarrow> rs) [],
                      entry @ calls)))"

subsection \<open>The primary adapter: the \<^verbatim>\<open>try\<close> statement of \<^verbatim>\<open>search_web\<close> (lines 57-81)\<close>

text \<open>Lines 65-67.\<close>

definition extract_hit :: "firecrawl_hit \<Rightarrow> search_record" where
  "extract_hit result =
     \<lparr>title = py_or (hit_title result) (PyStr ''No title''),
      url = py_or (hit_url result) (PyStr ''No URL''),
      content =
        py_or (py_or (hit_markdown result) (hit_content result)) (PyStr ''No content'')\<rparr>"

text \<open>
  The test of line 70 on the three extracted values, with the short circuit of \<^verbatim>\<open>or\<close> and
  \<^verbatim>\<open>and\<close>: \<^verbatim>\<open>len(content)\<close> is reached only when title and url are the placeholders and
  the content is truthy and not the placeholder, and it raises when the content has no
  length.
\<close>

definition has_actual_content :: "search_record \<Rightarrow> py_exception + bool" where
  "has_actual_content r =
     (if title r \<noteq> PyStr ''No title'' then Inr True
      else if url r \<noteq> PyStr ''No URL'' then Inr True
      else if \<not> truthy (content r) then Inr False
      else if \<not> content r \<noteq> PyStr ''No content'' then Inr False
      else case py_len (content r) of
             Inl e \<Rightarrow> Inl e
           | Inr n \<Rightarrow> Inr (n > 10))"

text \<open>
  The loop of lines 64-75. It returns the list \<^verbatim>\<open>results\<close> as the loop left it, and the
  exception that ended the loop, if one did: the records appended before the exception
  stay in the list.
\<close>

fun firecrawl_loop ::
    "firecrawl_hit list \<Rightarrow> search_record list \<Rightarrow> search_record list \<times> py_exception option" where
  "firecrawl_loop [] results = (results, None)"
| "firecrawl_loop (result # rest) results =
     (case has_actual_content (extract_hit result) of
        Inl e \<Rightarrow> (results, Some e)
      | Inr keep \<Rightarrow>
          firecrawl_loop rest (if keep then results @ [extract_hit result] else results))"

text \<open>
  The values of \<^verbatim>\<open>results\<close> and \<^verbatim>\<open>search_method_used\<close> after the \<^verbatim>\<open>try\<close> statement, and the
  calls made. An exception of the constructor or of the search leaves both variables as
  lines 53-54 set them. An exception inside the loop is caught by the same handler: line 78
  is not reached, so the label stays \<open>Unknown\<close>, whatever the loop had appended.
\<close>

definition firecrawl_try ::
    "environment \<Rightarrow> string \<Rightarrow> (search_record list \<times> string) \<times> call list" where
  "firecrawl_try env query =
     (case firecrawl_client_init env of
        Some e \<Rightarrow> (([], ''Unknown''), [])
      | None \<Rightarrow>
          (let (answer, calls) = call_firecrawl_search env query
           in case answer of
                Inl e \<Rightarrow> (([], ''Unknown''), calls)
              | Inr search_result \<Rightarrow>
                  (case fc_data search_result of
                     None \<Rightarrow> (([], ''Unknown''), calls)
                   | Some firecrawl_results \<Rightarrow>
                       if length firecrawl_results > 0 then
                         (case firecrawl_loop firecrawl_results [] of
                            (results, Some e) \<Rightarrow> ((results, ''Unknown''), calls)
                          | (results, None) \<Rightarrow>
                              if results \<noteq> [] then ((results, ''FireCrawl''), calls)
                              else ((results, ''Unknown''), calls))
                       else (([], ''Unknown''), calls))))"

text \<open>
  Lines 84-89: the fallback runs when \<^verbatim>\<open>results\<close> is empty; its calls come after those of the
  primary adapter.
\<close>

definition gather_results ::
    "environment \<Rightarrow> string \<Rightarrow> int \<Rightarrow> (search_record list \<times> string) \<times> call list" where
  "gather_results env query max_results =
     (let ((results, search_method_used), calls) = firecrawl_try env query
      in if results = [] then
           (let (results, more) = search_with_tavily env query max_results
            in if results \<noteq> [] then ((results, ''Tavily''), calls @ more)
               else ((results, search_method_used), calls @ more))
         else ((results, search_method_used), calls))"

subsection \<open>Formatting (lines 92-146)\<close>

definition dquote :: string where
  "dquote = [CHR 0x22]"

definition diagnostic_message :: "string \<Rightarrow> string" where
  "diagnostic_message query =
     ''I was unable to find search results for '' @ dquote @ query @ dquote @
     '' using available search providers (FireCrawl, Tavily). This could be due to:\<newline>'' @
     ''1. API limitations or issues\<newline>'' @
     ''2. The query being too specific or recent\<newline>'' @
     ''3. Network connectivity issues\<newline>'' @
     ''\<newline>'' @
     ''Please try:\<newline>'' @
     ''- Rephrasing your query\<newline>'' @
     ''- Checking your internet connection\<newline>'' @
     ''- Verifying your API keys are configured correctly\<newline>'' @
     ''- Trying again in a few minutes\<newline>'' @
     ''\<newline>'' @
     ''For ManCity match information specifically, I recommend checking:\<newline>'' @
     ''- Official Manchester City FC website\<newline>'' @
     ''- BBC Sport\<newline>'' @
     ''- ESPN\<newline>'' @
     ''- Sky Sports''"

text \<open>Lines 118-120, on \<^verbatim>\<open>str(content)\<close>.\<close>

definition truncate_content :: "string \<Rightarrow> string" where
  "truncate_content c = (if length c > 1500 then take 1500 c @ ''...'' else c)"

text \<open>What one pass of the loop of lines 113-124 appends to \<^verbatim>\<open>context\<close>.\<close>

definition context_entry :: "nat \<Rightarrow> search_record \<Rightarrow> string" where
  "context_entry i result =
     ''['' @ string_of_nat i @ ''] Source: '' @ py_str (url result) @ ''\<newline>'' @
     '' Title: '' @ py_str (title result) @ ''\<newline>'' @
     '' Content: '' @ truncate_content (py_str (content result)) @ ''\<newline>\<newline>''"

text \<open>What one pass of the loop of lines 128-131 appends to \<^verbatim>\<open>sources\<close>.\<close>

definition citation_line :: "nat \<Rightarrow> search_record \<Rightarrow> string" where
  "citation_line i result =
     ''['' @ string_of_nat i @ ''] '' @ py_str (title result) @ '' - '' @
     py_str (url result) @ ''\<newline>''"

text \<open>
  \<^verbatim>\<open>for i, result in enumerate(rs, i0): buf += line(i, result)\<close>, the shape of both loops.
\<close>

fun enumerate_loop ::
    "(nat \<Rightarrow> search_record \<Rightarrow> string) \<Rightarrow> nat \<Rightarrow> search_record list \<Rightarrow> string \<Rightarrow> string" where
  "enumerate_loop line i [] buf = buf"
| "enumerate_loop line i (result # rest) buf =
     enumerate_loop line (Suc i) rest (buf @ line i result)"

definition format_context :: "string \<Rightarrow> search_record list \<Rightarrow> int \<Rightarrow> string" where
  "format_context search_method_used results max_results =
     enumerate_loop context_entry 1 (py_slice_to results max_results)
       (''Search results (via '' @ search_method_used @ ''):\<newline>'')"

definition format_sources :: "string \<Rightarrow> search_record list \<Rightarrow> int \<Rightarrow> string" where
  "format_sources search_method_used results max_results =
     enumerate_loop citation_line 1 (py_slice_to results max_results)
       (''\<newline>\<newline>Sources (via '' @ search_method_used @ ''):\<newline>'')"

definition build_prompt :: "string \<Rightarrow> string \<Rightarrow> string \<Rightarrow> string" where
  "build_prompt query context search_method_used =
     ''You are a helpful research assistant that provides accurate, concise, and well-sourced answers.\<newline>'' @
     ''Using the search results below, provide a comprehensive answer to the query: '' @
       dquote @ query @ dquote @ ''\<newline>'' @
     ''\<newline>'' @
     context @ ''\<newline>'' @
     ''\<newline>'' @
     ''Instructions:\<newline>'' @
     ''1. Provide a clear, well-structured answer\<newline>'' @
     ''2. Cite sources using the numbered references above\<newline>'' @
     ''3. If the search results don't contain relevant information, state this clearly\<newline>'' @
     ''4. Keep the answer focused and avoid speculation\<newline>'' @
     ''5. Note that results were obtained via '' @ search_method_used @ ''\<newline>'' @
     ''\<newline>'' @
     ''Answer:''"

definition completion_request :: "string \<Rightarrow> chat_request" where
  "completion_request prompt =
     \<lparr>model = ''gpt-4o-mini'',
      messages =
        [(''system'',
          ''You are a research assistant that provides accurate information based on search results.''),
         (''user'', prompt)],
      max_tokens = 1000\<rparr>"

subsection \<open>\<^verbatim>\<open>search_web\<close> (lines 46-164)\<close>

text \<open>
  Line 160, \<^verbatim>\<open>response.choices[0].message.content.strip() + sources\<close>: an empty list of
  choices raises \<^verbatim>\<open>IndexError\<close>, a content of \<^verbatim>\<open>None\<close> raises \<^verbatim>\<open>AttributeError\<close>.
\<close>

definition assemble :: "chat_response \<Rightarrow> string \<Rightarrow> py_exception + string" where
  "assemble response sources =
     (case choices response of
        [] \<Rightarrow> Inl (PyException ''IndexError'')
      | c # _ \<Rightarrow>
          (case c of
             None \<Rightarrow> Inl (PyException ''AttributeError'')
           | Some answer \<Rightarrow> Inr (strip answer @ sources)))"

text \<open>
  The result is \<open>Inl e\<close> when the function raises \<open>e\<close> and \<open>Inr s\<close> when it returns \<open>s\<close>; the
  second component lists the calls made.
\<close>

definition search_web ::
    "environment \<Rightarrow> string \<Rightarrow> int \<Rightarrow> (py_exception + string) \<times> call list" where
  "search_web env query max_results =
     (case openai_client_init env of
        Some e \<Rightarrow> (Inl e, [])
      | None \<Rightarrow>
          (let ((results, search_method_used), calls) = gather_results env query max_results
           in if results = [] then (Inr (diagnostic_message query), calls)
              else
                (let context = format_context search_method_used results max_results;
                     sources = format_sources search_method_used results max_results;
                     prompt = build_prompt query context search_method_used;
                     (answer, more) = call_chat_completion env (completion_request prompt)
                 in case answer of
                      Inl e \<Rightarrow> (Inl e, calls @ more)
                    | Inr response \<Rightarrow> (assemble response sources, calls @ more))))"

subsection \<open>Notions used in the statements\<close>

text \<open>The records and the label the primary adapter leaves, and the records of the fallback.\<close>

definition primary_records :: "environment \<Rightarrow> string \<Rightarrow> search_record list" where
  "primary_records env query = fst (fst (firecrawl_try env query))"

definition primary_label :: "environment \<Rightarrow> string \<Rightarrow> string" where
  "primary_label env query = snd (fst (firecrawl_try env query))"

definition fallback_records :: "environment \<Rightarrow> string \<Rightarrow> int \<Rightarrow> search_record list" where
  "fallback_records env query max_results = fst (search_with_tavily env query max_results)"

text \<open>The hits of a FireCrawl response (none when the response has no usable \<^verbatim>\<open>data\<close>).\<close>

definition response_hits :: "firecrawl_response \<Rightarrow> firecrawl_hit list" where
  "response_hits response = (case fc_data response of None \<Rightarrow> [] | Some hits \<Rightarrow> hits)"

text \<open>A hit qualifies when the test of line 70 is true for it; the test raises on others.\<close>

definition qualifies :: "firecrawl_hit \<Rightarrow> bool" where
  "qualifies h \<longleftrightarrow> has_actual_content (extract_hit h) = Inr True"

definition raises_on :: "firecrawl_hit \<Rightarrow> bool" where
  "raises_on h = (case has_actual_content (extract_hit h) of Inl e \<Rightarrow> True | Inr b \<Rightarrow> False)"

definition qualifying_hits :: "firecrawl_response \<Rightarrow> firecrawl_hit list" where
  "qualifying_hits response = filter qualifies (response_hits response)"

text \<open>The qualifying hits that come before the first hit on which the test raises.\<close>

definition retained_hits :: "firecrawl_response \<Rightarrow> firecrawl_hit list" where
  "retained_hits response =
     filter qualifies (takeWhile (\<lambda>h. \<not> raises_on h) (response_hits response))"

text \<open>The request \<open>search_web\<close> sends to the completion endpoint when it has records.\<close>

definition the_request :: "environment \<Rightarrow> string \<Rightarrow> int \<Rightarrow> chat_request" where
  "the_request env query max_results =
     (let (results, search_method_used) = fst (gather_results env query max_results)
      in completion_request
           (build_prompt query (format_context search_method_used results max_results)
              search_method_used))"

definition is_completion_call :: "call \<Rightarrow> bool" where
  "is_completion_call c = (case c of ChatCompletion r \<Rightarrow> True | _ \<Rightarrow> False)"

definition is_fallback_entry :: "call \<Rightarrow> bool" where
  "is_fallback_entry c = (case c of SearchWithTavily q n \<Rightarrow> True | _ \<Rightarrow> False)"

definition is_firecrawl_call :: "call \<Rightarrow> bool" where
  "is_firecrawl_call c = (case c of FirecrawlSearch q \<Rightarrow> True | _ \<Rightarrow> False)"


subsection \<open>Example environments\<close>

text \<open>
  Five hits: one with a title, a url and a content; one with no attribute set; one with a
  markdown body only; one whose only content is the five characters \<open>short\<close>; one whose
  markdown is the number 12345.
\<close>

definition paris_hit :: firecrawl_hit where
  "paris_hit =
     \<lparr>hit_title = PyStr ''Paris'', hit_url = PyStr ''https://x'', hit_markdown = PyNone,
      hit_content = PyStr ''Paris is the capital of France''\<rparr>"

definition blank_hit :: firecrawl_hit where
  "blank_hit =
     \<lparr>hit_title = PyNone, hit_url = PyNone, hit_markdown = PyNone, hit_content = PyNone\<rparr>"

definition markdown_hit :: firecrawl_hit where
  "markdown_hit =
     \<lparr>hit_title = PyNone, hit_url = PyStr [], hit_markdown = PyStr ''# France in a nutshell'',
      hit_content = PyStr ''ignored''\<rparr>"

definition short_hit :: firecrawl_hit where
  "short_hit =
     \<lparr>hit_title = PyNone, hit_url = PyNone, hit_markdown = PyNone,
      hit_content = PyStr ''short''\<rparr>"

definition number_hit :: firecrawl_hit where
  "number_hit =
     \<lparr>hit_title = PyNone, hit_url = PyNone, hit_markdown = PyInt 12345,
      hit_content = PyNone\<rparr>"

definition paris_record :: search_record where
  "paris_record =
     \<lparr>title = PyStr ''Paris'', url = PyStr ''https://x'',
      content = PyStr ''Paris is the capital of France''\<rparr>"

definition markdown_record :: search_record where
  "markdown_record =
     \<lparr>title = PyStr ''No title'', url = PyStr ''No URL'',
      content = PyStr ''# France in a nutshell''\<rparr>"

definition placeholder_record :: search_record where
  "placeholder_record =
     \<lparr>title = PyStr ''No title'', url = PyStr ''No URL'', content = PyStr ''No content''\<rparr>"

definition lyon_record :: search_record where
  "lyon_record =
     \<lparr>title = PyStr ''Lyon'', url = PyStr ''https://y'', content = PyStr ''No content''\<rparr>"

text \<open>Two Tavily hits, the first of them an empty dictionary.\<close>

definition tavily_hits :: "tavily_hit list" where
  "tavily_hits = [Map.empty, [''title'' \<mapsto> PyStr ''Lyon'', ''url'' \<mapsto> PyStr ''https://y'']]"

text \<open>
  All clients are built. FireCrawl answers the given hits, Tavily the two hits above, and
  the completion endpoint a text with white space around it.
\<close>

definition env_hits :: "firecrawl_hit list \<Rightarrow> environment" where
  "env_hits hits =
     \<lparr>openai_client_init = None,
      firecrawl_client_init = None,
      firecrawl_search = (\<lambda>q. Inr \<lparr>fc_data = Some hits\<rparr>),
      tavily_client_init = None,
      tavily_search = (\<lambda>q n. Inr \<lparr>tv_results = Some tavily_hits\<rparr>),
      chat_completion = (\<lambda>r. Inr \<lparr>choices = [Some '' Paris [1].\<newline>'']\<rparr>)\<rparr>"

definition env_firecrawl :: environment where
  "env_firecrawl = env_hits [paris_hit, blank_hit, markdown_hit]"

text \<open>FireCrawl answers an object without \<^verbatim>\<open>data\<close>, so that the Tavily hits are used.\<close>

definition env_tavily :: environment where
  "env_tavily = (env_hits [])\<lparr>firecrawl_search := (\<lambda>q. Inr \<lparr>fc_data = None\<rparr>)\<rparr>"

text \<open>The FireCrawl search raises and Tavily finds nothing.\<close>

definition env_no_results :: environment where
  "env_no_results =
     (env_hits [])\<lparr>firecrawl_search := (\<lambda>q. Inl (PyException ''ConnectionError'')),
                   tavily_search := (\<lambda>q n. Inr \<lparr>tv_results = Some []\<rparr>)\<rparr>"

text \<open>Both searches raise.\<close>

definition env_both_raise :: environment where
  "env_both_raise =
     (env_hits [])\<lparr>firecrawl_search := (\<lambda>q. Inl (PyException ''Timeout'')),
                   tavily_search := (\<lambda>q n. Inl (PyException ''HTTPError''))\<rparr>"

text \<open>Neither search client can be built.\<close>

definition env_no_keys :: environment where
  "env_no_keys =
     (env_hits [paris_hit])\<lparr>firecrawl_client_init := Some (PyException ''ValueError''),
                            tavily_client_init := Some (PyException ''MissingAPIKeyError'')\<rparr>"

text \<open>As \<open>env_firecrawl\<close>, with a completion endpoint that raises.\<close>

definition env_completion_raises :: environment where
  "env_completion_raises =
     env_firecrawl\<lparr>chat_completion := (\<lambda>r. Inl (PyException ''RateLimitError''))\<rparr>"

section \<open>Properties\<close>

subsection \<open>The loops, in closed form\<close>

lemma tavily_loop_eq: "tavily_loop hits results = results @ map tavily_record hits"
  by (induction hits arbitrary: results) simp_all

lemma fst_firecrawl_loop:
  "fst (firecrawl_loop hits results) =
     results @ map extract_hit (filter qualifies (takeWhile (\<lambda>h. \<not> raises_on h) hits))"
proof (induction hits arbitrary: results)
  case Nil
  then show ?case by simp
next
  case (Cons h hits)
  show ?case
  proof (cases "has_actual_content (extract_hit h)")
    case (Inl e)
    then show ?thesis by (simp add: raises_on_def)
  next
    case (Inr keep)
    then show ?thesis by (simp add: Cons.IH raises_on_def qualifies_def)
  qed
qed

lemma snd_firecrawl_loop:
  "snd (firecrawl_loop hits results) = None \<longleftrightarrow> (\<forall>h \<in> set hits. \<not> raises_on h)"
proof (induction hits arbitrary: results)
  case Nil
  then show ?case by simp
next
  case (Cons h hits)
  show ?case
  proof (cases "has_actual_content (extract_hit h)")
    case (Inl e)
    then show ?thesis by (simp add: raises_on_def)
  next
    case (Inr keep)
    then show ?thesis by (simp add: Cons.IH raises_on_def)
  qed
qed

lemma enumerate_loop_eq:
  "enumerate_loop line i rs buf =
     buf @ concat (map (\<lambda>k. line (i + k) (rs ! k)) [0..<length rs])"
proof (induction rs arbitrary: i buf)
  case Nil
  then show ?case by simp
next
  case (Cons r rs)
  have "map (\<lambda>k. line (i + k) ((r # rs) ! k)) [0..<length (r # rs)] =
        line i r # map (\<lambda>k. line (Suc i + k) (rs ! k)) [0..<length rs]"
    by (simp add: map_upt_Suc del: upt_Suc)
  then show ?case using Cons.IH [of "Suc i" "buf @ line i r"] by simp
qed

lemma last_dropWhile_nonempty: "dropWhile P xs \<noteq> [] \<Longrightarrow> last (dropWhile P xs) = last xs"
  by (metis last_appendR takeWhile_dropWhile_id)

lemma strip_decompose:
  "\<exists>a b. s = a @ strip s @ b \<and> (\<forall>c \<in> set a. is_space c) \<and> (\<forall>c \<in> set b. is_space c)"
proof -
  let ?a = "takeWhile is_space s"
  let ?m = "dropWhile is_space s"
  let ?b = "rev (takeWhile is_space (rev ?m))"
  have "rev ?m = takeWhile is_space (rev ?m) @ dropWhile is_space (rev ?m)" by simp
  then have "?m = strip s @ ?b"
    unfolding strip_def by (metis rev_append rev_rev_ident)
  then have "s = ?a @ strip s @ ?b"
    by (metis takeWhile_dropWhile_id)
  moreover have "\<forall>c \<in> set ?a. is_space c" by (auto dest: set_takeWhileD)
  moreover have "\<forall>c \<in> set ?b. is_space c" by (auto dest: set_takeWhileD)
  ultimately show ?thesis by blast
qed

lemma strip_ends:
  assumes "strip s \<noteq> []"
  shows "\<not> is_space (hd (strip s)) \<and> \<not> is_space (last (strip s))"
proof -
  let ?m = "dropWhile is_space s"
  let ?d = "dropWhile is_space (rev ?m)"
  from assms have d: "?d \<noteq> []" by (simp add: strip_def)
  have m: "?m \<noteq> []"
  proof
    assume e: "?m = []"
    have "?d = []" unfolding e by simp
    with d show False by blast
  qed
  have "last (strip s) = hd ?d" using d by (simp add: strip_def last_rev)
  moreover have "\<not> is_space (hd ?d)" using d by (rule hd_dropWhile)
  moreover have "hd (strip s) = last ?d" using d by (simp add: strip_def hd_rev)
  moreover have "last ?d = last (rev ?m)" using d by (rule last_dropWhile_nonempty)
  moreover have "last (rev ?m) = hd ?m" using m by (simp add: last_rev)
  moreover have "\<not> is_space (hd ?m)" using m by (rule hd_dropWhile)
  ultimately show ?thesis by simp
qed

subsection \<open>The adapters, in closed form\<close>

lemma firecrawl_try_eq:
  "firecrawl_try env query =
     (if firecrawl_client_init env \<noteq> None then (([], ''Unknown''), [])
      else case firecrawl_search env query of
             Inl e \<Rightarrow> (([], ''Unknown''), [FirecrawlSearch query])
           | Inr response \<Rightarrow>
               ((map extract_hit (retained_hits response),
                 if retained_hits response \<noteq> [] \<and>
                    (\<forall>h \<in> set (response_hits response). \<not> raises_on h)
                 then ''FireCrawl'' else ''Unknown''),
                [FirecrawlSearch query]))"
proof (cases "firecrawl_client_init env")
  case (Some e)
  then show ?thesis by (simp add: firecrawl_try_def)
next
  case None
  show ?thesis
  proof (cases "firecrawl_search env query")
    case (Inl e)
    with None show ?thesis by (simp add: firecrawl_try_def call_firecrawl_search_def)
  next
    case (Inr response)
    show ?thesis
    proof (cases "fc_data response")
      case n: None
      with None Inr show ?thesis
        by (simp add: firecrawl_try_def call_firecrawl_search_def retained_hits_def
            response_hits_def)
    next
      case (Some hits)
      obtain rs x where l: "firecrawl_loop hits [] = (rs, x)"
        by (cases "firecrawl_loop hits []") auto
      from l fst_firecrawl_loop [of hits "[]"]
      have r: "rs = map extract_hit (retained_hits response)"
        by (simp add: retained_hits_def response_hits_def Some)
      from l snd_firecrawl_loop [of hits "[]"]
      have x: "x = None \<longleftrightarrow> (\<forall>h \<in> set (response_hits response). \<not> raises_on h)"
        by (simp add: response_hits_def Some)
      have e: "hits = [] \<Longrightarrow> retained_hits response = []"
        by (simp add: retained_hits_def response_hits_def Some)
      show ?thesis
      proof (cases x)
        case n: None
        with None Inr Some l r x e show ?thesis
          by (cases "hits = []")
            (simp_all add: firecrawl_try_def call_firecrawl_search_def)
      next
        case s: (Some e')
        with None Inr Some l r x e show ?thesis
          by (cases "hits = []")
            (auto simp: firecrawl_try_def call_firecrawl_search_def)
      qed
    qed
  qed
qed

lemma search_with_tavily_eq:
  "search_with_tavily env query n =
     (if tavily_client_init env \<noteq> None then ([], [SearchWithTavily query n])
      else (case tavily_search env query n of
              Inl e \<Rightarrow> []
            | Inr response \<Rightarrow>
                map tavily_record
                  (case tv_results response of None \<Rightarrow> [] | Some hits \<Rightarrow> hits),
            [SearchWithTavily query n, TavilySearch query n False False]))"
  by (cases "tavily_client_init env"; cases "tavily_search env query n")
    (simp_all add: search_with_tavily_def call_tavily_search_def tavily_loop_eq)

lemma primary_calls:
  "snd (firecrawl_try env query) =
     (if firecrawl_client_init env = None then [FirecrawlSearch query] else [])"
  by (simp add: firecrawl_try_eq split: sum.split)

lemma fallback_calls:
  "snd (search_with_tavily env query n) =
     SearchWithTavily query n #
       (if tavily_client_init env = None then [TavilySearch query n False False] else [])"
  by (simp add: search_with_tavily_eq)

lemma primary_label_eq:
  "primary_label env query = ''FireCrawl'' \<or> primary_label env query = ''Unknown''"
  by (simp add: primary_label_def firecrawl_try_eq split: sum.split)

lemma primary_label_empty:
  "primary_records env query = [] \<Longrightarrow> primary_label env query = ''Unknown''"
  by (simp add: primary_label_def primary_records_def firecrawl_try_eq
      split: sum.splits if_splits)

lemma gather_results_eq:
  "gather_results env query n =
     (if primary_records env query \<noteq> [] then
        ((primary_records env query, primary_label env query), snd (firecrawl_try env query))
      else
        ((fallback_records env query n,
          if fallback_records env query n \<noteq> [] then ''Tavily'' else ''Unknown''),
         snd (firecrawl_try env query) @ snd (search_with_tavily env query n)))"
proof -
  obtain rs m cs where t: "firecrawl_try env query = ((rs, m), cs)"
    by (cases "firecrawl_try env query") auto
  obtain rs' cs' where s: "search_with_tavily env query n = (rs', cs')"
    by (cases "search_with_tavily env query n") auto
  from t have p: "primary_records env query = rs" "primary_label env query = m"
    by (simp_all add: primary_records_def primary_label_def)
  from s have f: "fallback_records env query n = rs'"
    by (simp add: fallback_records_def)
  have "rs = [] \<Longrightarrow> m = ''Unknown''"
    using primary_label_empty [of env query] p by simp
  then show ?thesis
    by (simp add: gather_results_def t s p f)
qed

lemma search_web_diagnostic:
  assumes "openai_client_init env = None"
    and "fst (gather_results env query n) = ([], m)"
  shows "search_web env query n =
           (Inr (diagnostic_message query), snd (gather_results env query n))"
  using assms by (cases "gather_results env query n") (simp add: search_web_def)

lemma search_web_answer:
  assumes "openai_client_init env = None"
    and "fst (gather_results env query n) = (results, m)"
    and "results \<noteq> []"
  shows "search_web env query n =
           ((case chat_completion env (the_request env query n) of
               Inl e \<Rightarrow> Inl e
             | Inr response \<Rightarrow> assemble response (format_sources m results n)),
            snd (gather_results env query n) @ [ChatCompletion (the_request env query n)])"
  using assms
  by (cases "gather_results env query n")
    (simp add: search_web_def the_request_def call_chat_completion_def Let_def
      split: sum.split)

lemma format_context_eq:
  "format_context m results n =
     ''Search results (via '' @ m @ ''):\<newline>'' @
     concat (map (\<lambda>k. context_entry (Suc k) (py_slice_to results n ! k))
               [0..<length (py_slice_to results n)])"
  by (simp add: format_context_def enumerate_loop_eq)

lemma format_sources_eq:
  "format_sources m results n =
     ''\<newline>\<newline>Sources (via '' @ m @ ''):\<newline>'' @
     concat (map (\<lambda>k. citation_line (Suc k) (py_slice_to results n ! k))
               [0..<length (py_slice_to results n)])"
  by (simp add: format_sources_def enumerate_loop_eq)

lemma py_slice_to_within:
  "0 \<le> n \<Longrightarrow> n \<le> int (length xs) \<Longrightarrow>
     py_slice_to xs n = take (nat n) xs \<and> length (py_slice_to xs n) = nat n"
  by (auto simp: py_slice_to_def)

lemma concat_map_take_nth:
  "concat (map (\<lambda>k. line (Suc k) (take n xs ! k)) [0..<n]) =
   concat (map (\<lambda>k. line (Suc k) (xs ! k)) [0..<n])"
proof -
  have "map (\<lambda>k. line (Suc k) (take n xs ! k)) [0..<n] =
        map (\<lambda>k. line (Suc k) (xs ! k)) [0..<n]"
    by (rule map_cong [OF refl]) simp
  then show ?thesis by (rule arg_cong)
qed

lemma assemble_Some:
  "choices response = Some answer # others \<Longrightarrow>
     assemble response sources = Inr (strip answer @ sources)"
  by (simp add: assemble_def)

subsection \<open>The example hits and environments, evaluated\<close>

lemma example_hits:
  "has_actual_content (extract_hit paris_hit) = Inr True"
  "has_actual_content (extract_hit blank_hit) = Inr False"
  "has_actual_content (extract_hit markdown_hit) = Inr True"
  "has_actual_content (extract_hit short_hit) = Inr False"
  "has_actual_content (extract_hit number_hit) = Inl (PyException ''TypeError'')"
  "extract_hit paris_hit = paris_record"
  "extract_hit markdown_hit = markdown_record"
  "has_actual_content paris_record = Inr True"
  "has_actual_content markdown_record = Inr True"
  by (simp_all add: has_actual_content_def extract_hit_def py_or_def truthy_def py_len_def
      paris_hit_def blank_hit_def markdown_hit_def short_hit_def number_hit_def
      paris_record_def markdown_record_def)

lemma example_qualifies:
  "qualifies paris_hit" "\<not> qualifies blank_hit" "qualifies markdown_hit"
  "\<not> qualifies short_hit" "\<not> qualifies number_hit"
  "\<not> raises_on paris_hit" "\<not> raises_on blank_hit" "\<not> raises_on markdown_hit"
  "\<not> raises_on short_hit" "raises_on number_hit"
  by (simp_all add: qualifies_def raises_on_def example_hits)

lemma env_hits_simps:
  "openai_client_init (env_hits hits) = None"
  "firecrawl_client_init (env_hits hits) = None"
  "firecrawl_search (env_hits hits) q = Inr \<lparr>fc_data = Some hits\<rparr>"
  "tavily_client_init (env_hits hits) = None"
  "tavily_search (env_hits hits) q n = Inr \<lparr>tv_results = Some tavily_hits\<rparr>"
  "chat_completion (env_hits hits) r = Inr \<lparr>choices = [Some '' Paris [1].\<newline>'']\<rparr>"
  by (simp_all add: env_hits_def)

lemma tavily_hits_records: "map tavily_record tavily_hits = [placeholder_record, lyon_record]"
  by (simp add: tavily_hits_def tavily_record_def dict_get_def placeholder_record_def
      lyon_record_def)

lemma env_hits_retained:
  "firecrawl_try (env_hits hits) query =
     ((map extract_hit (filter qualifies (takeWhile (\<lambda>h. \<not> raises_on h) hits)),
       if filter qualifies (takeWhile (\<lambda>h. \<not> raises_on h) hits) \<noteq> [] \<and>
          (\<forall>h \<in> set hits. \<not> raises_on h)
       then ''FireCrawl'' else ''Unknown''),
      [FirecrawlSearch query])"
  by (simp add: firecrawl_try_eq env_hits_simps retained_hits_def response_hits_def)

lemma env_hits_fallback:
  "search_with_tavily (env_hits hits) query n =
     ([placeholder_record, lyon_record],
      [SearchWithTavily query n, TavilySearch query n False False])"
  by (simp add: search_with_tavily_eq env_hits_simps tavily_hits_records)

lemma gather_results_env_firecrawl:
  "gather_results env_firecrawl query n =
     (([paris_record, markdown_record], ''FireCrawl''), [FirecrawlSearch query])"
  by (simp add: gather_results_eq primary_records_def primary_label_def env_firecrawl_def
      env_hits_retained example_qualifies example_hits)


lemma gather_results_env_no_results:
  "gather_results env_no_results query n =
     (([], ''Unknown''),
      [FirecrawlSearch query, SearchWithTavily query n, TavilySearch query n False False])"
  by (simp add: gather_results_eq primary_records_def primary_label_def fallback_records_def
      firecrawl_try_eq search_with_tavily_eq env_no_results_def env_hits_simps)

lemma strip_example: "strip '' Paris [1].\<newline>'' = ''Paris [1].''"
  by (simp add: strip_def is_space_def)

lemma string_of_nat_examples:
  "string_of_nat 1 = ''1''" "string_of_nat (Suc 0) = ''1''"
  "string_of_nat 2 = ''2''" "string_of_nat (Suc (Suc 0)) = ''2''"
  by (simp_all add: string_of_nat.simps)

subsection \<open>The empty-results path\<close>

text \<open>
  C1 (as amended). When the OpenAI client was built and both adapters yield zero records,
  \<open>search_web\<close> returns the diagnostic text of lines 93-108, in which the query is written
  between double quotes: the text is the same for every such invocation with the same query.
  The calls made are those of the two adapters (the FireCrawl search when its client was
  built, the entry into the fallback, the Tavily search when its client was built), and no
  completion call.
\<close>

theorem C1_diagnostic_without_completion:
  assumes "openai_client_init env = None"
    and "primary_records env query = []"
    and "fallback_records env query max_results = []"
  shows "fst (search_web env query max_results) = Inr (diagnostic_message query) \<and>
         snd (search_web env query max_results) =
           (if firecrawl_client_init env = None then [FirecrawlSearch query] else []) @
           SearchWithTavily query max_results #
           (if tavily_client_init env = None
            then [TavilySearch query max_results False False] else []) \<and>
         filter is_completion_call (snd (search_web env query max_results)) = []"
proof -
  from assms(2,3) have "gather_results env query max_results =
      (([], ''Unknown''),
       snd (firecrawl_try env query) @ snd (search_with_tavily env query max_results))"
    by (simp add: gather_results_eq)
  with assms(1) have "search_web env query max_results =
      (Inr (diagnostic_message query),
       snd (firecrawl_try env query) @ snd (search_with_tavily env query max_results))"
    by (simp add: search_web_diagnostic)
  then show ?thesis
    by (simp add: primary_calls fallback_calls is_completion_call_def)
qed

theorem C1_diagnostic_witness:
  "openai_client_init env_no_results = None \<and>
   primary_records env_no_results ''capital of France'' = [] \<and>
   fallback_records env_no_results ''capital of France'' 5 = [] \<and>
   search_web env_no_results ''capital of France'' 5 =
     (Inr (diagnostic_message ''capital of France''),
      [FirecrawlSearch ''capital of France'', SearchWithTavily ''capital of France'' 5,
       TavilySearch ''capital of France'' 5 False False])"
proof -
  have a: "openai_client_init env_no_results = None"
    "firecrawl_client_init env_no_results = None"
    "tavily_client_init env_no_results = None"
    by (simp_all add: env_no_results_def env_hits_simps)
  have b: "primary_records env_no_results ''capital of France'' = []"
    by (simp add: primary_records_def firecrawl_try_eq env_no_results_def env_hits_simps)
  have c: "fallback_records env_no_results ''capital of France'' 5 = []"
    by (simp add: fallback_records_def search_with_tavily_eq env_no_results_def
        env_hits_simps)
  from C1_diagnostic_without_completion [OF a(1) b c] a b c show ?thesis
    by (simp add: prod_eq_iff)
qed

text \<open>
  The claim as stated asks for one string for all such invocations. Two invocations in which
  both adapters yield zero records, with the queries \<open>a\<close> and \<open>b\<close>, return different strings.
\<close>

theorem C1_counterexample:
  "primary_records env_no_results ''a'' = [] \<and>
   fallback_records env_no_results ''a'' 5 = [] \<and>
   primary_records env_no_results ''b'' = [] \<and>
   fallback_records env_no_results ''b'' 5 = [] \<and>
   fst (search_web env_no_results ''a'' 5) \<noteq> fst (search_web env_no_results ''b'' 5)"
proof -
  have "openai_client_init env_no_results = None"
    by (simp add: env_no_results_def env_hits_simps)
  then have "fst (search_web env_no_results q 5) = Inr (diagnostic_message q)" for q
    by (simp add: search_web_diagnostic gather_results_env_no_results)
  moreover have "diagnostic_message ''a'' \<noteq> diagnostic_message ''b''"
    by (simp add: diagnostic_message_def dquote_def)
  moreover have "primary_records env_no_results q = []" for q
    by (simp add: primary_records_def firecrawl_try_eq env_no_results_def env_hits_simps)
  moreover have "fallback_records env_no_results q 5 = []" for q
    by (simp add: fallback_records_def search_with_tavily_eq env_no_results_def
        env_hits_simps)
  ultimately show ?thesis by simp
qed

subsection \<open>The result formatter\<close>

text \<open>
  C2. A content of at most 1500 characters is used as it is; a longer one is cut to its first
  1500 characters, followed by three dots, so that a content of 1501 characters gives 1503
  characters. The formatter applies the rule to \<^verbatim>\<open>str(content)\<close>, which is the content
  itself when the content is a string; the last conjunct shows where it puts the result.
\<close>

theorem C2_truncation:
  "(length c \<le> 1500 \<longrightarrow> truncate_content c = c) \<and>
   (length c > 1500 \<longrightarrow> truncate_content c = take 1500 c @ ''...'') \<and>
   (length c = 1501 \<longrightarrow> length (truncate_content c) = 1503) \<and>
   py_str (PyStr c) = c \<and>
   format_context m [r] 1 =
     ''Search results (via '' @ m @ ''):\<newline>'' @
     ''[1] Source: '' @ py_str (url r) @ ''\<newline>'' @
     '' Title: '' @ py_str (title r) @ ''\<newline>'' @
     '' Content: '' @ truncate_content (py_str (content r)) @ ''\<newline>\<newline>''"
proof -
  have "format_context m [r] 1 =
     ''Search results (via '' @ m @ ''):\<newline>'' @
     ''[1] Source: '' @ py_str (url r) @ ''\<newline>'' @
     '' Title: '' @ py_str (title r) @ ''\<newline>'' @
     '' Content: '' @ truncate_content (py_str (content r)) @ ''\<newline>\<newline>''"
    by (simp add: format_context_def py_slice_to_def context_entry_def
        string_of_nat_examples)
  moreover have "py_str (PyStr c) = c"
    by (simp add: py_str_def)
  ultimately show ?thesis by (simp add: truncate_content_def)
qed

theorem C2_truncation_witness:
  "length ''Paris is the capital'' \<le> 1500 \<and>
   truncate_content ''Paris is the capital'' = ''Paris is the capital'' \<and>
   length (replicate 1501 (CHR ''x'')) > 1500 \<and>
   length (replicate 1501 (CHR ''x'')) = 1501 \<and>
   truncate_content (replicate 1501 (CHR ''x'')) = replicate 1500 (CHR ''x'') @ ''...'' \<and>
   length (truncate_content (replicate 1501 (CHR ''x''))) = 1503"
  using C2_truncation [of "''Paris is the capital''"]
    C2_truncation [of "replicate 1501 (CHR ''x'')"]
  by simp

text \<open>
  C3. For a list of more records than \<open>max_results\<close>, with \<open>max_results\<close> at least 1, the
  context block and the citation block hold one entry for each of the first \<open>max_results\<close>
  records, in the order of the list and numbered from 1; both blocks are the same as for the
  list cut after \<open>max_results\<close> records, so no later record appears in them.
\<close>

theorem C3_first_max_results:
  assumes "1 \<le> max_results"
    and "max_results < int (length results)"
  shows "format_context m results max_results =
           ''Search results (via '' @ m @ ''):\<newline>'' @
           concat (map (\<lambda>k. context_entry (Suc k) (results ! k)) [0..<nat max_results]) \<and>
         format_sources m results max_results =
           ''\<newline>\<newline>Sources (via '' @ m @ ''):\<newline>'' @
           concat (map (\<lambda>k. citation_line (Suc k) (results ! k)) [0..<nat max_results]) \<and>
         format_context m results max_results =
           format_context m (take (nat max_results) results) max_results \<and>
         format_sources m results max_results =
           format_sources m (take (nat max_results) results) max_results"
proof -
  from assms have s: "py_slice_to results max_results = take (nat max_results) results"
    and l: "length (py_slice_to results max_results) = nat max_results"
    by (simp_all add: py_slice_to_within)
  have t: "py_slice_to (take (nat max_results) results) max_results =
        take (nat max_results) results"
    using assms by (simp add: py_slice_to_def)
  have c: "format_context m results max_results =
           ''Search results (via '' @ m @ ''):\<newline>'' @
           concat (map (\<lambda>k. context_entry (Suc k) (results ! k)) [0..<nat max_results])"
    unfolding format_context_eq l by (simp add: s concat_map_take_nth)
  have d: "format_sources m results max_results =
           ''\<newline>\<newline>Sources (via '' @ m @ ''):\<newline>'' @
           concat (map (\<lambda>k. citation_line (Suc k) (results ! k)) [0..<nat max_results])"
    unfolding format_sources_eq l by (simp add: s concat_map_take_nth)
  have "format_context m results max_results =
           format_context m (take (nat max_results) results) max_results"
    by (simp add: format_context_def s t)
  moreover have "format_sources m results max_results =
           format_sources m (take (nat max_results) results) max_results"
    by (simp add: format_sources_def s t)
  ultimately show ?thesis using c d by simp
qed

theorem C3_first_max_results_witness:
  "(1::int) \<le> 2 \<and>
   (2::int) < int (length [paris_record, markdown_record, lyon_record]) \<and>
   format_context ''FireCrawl'' [paris_record, markdown_record, lyon_record] 2 =
     ''Search results (via FireCrawl):\<newline>'' @
     ''[1] Source: https://x\<newline> Title: Paris\<newline> Content: Paris is the capital of France\<newline>\<newline>'' @
     ''[2] Source: No URL\<newline> Title: No title\<newline> Content: # France in a nutshell\<newline>\<newline>'' \<and>
   format_sources ''FireCrawl'' [paris_record, markdown_record, lyon_record] 2 =
     ''\<newline>\<newline>Sources (via FireCrawl):\<newline>'' @
     ''[1] Paris - https://x\<newline>'' @
     ''[2] No title - No URL\<newline>''"
proof -
  let ?rs = "[paris_record, markdown_record, lyon_record]"
  have e: "concat (map f [0..<nat 2]) = f 0 @ f (Suc 0)" for f :: "nat \<Rightarrow> string"
    by (simp add: upt_rec)
  have h: "(1::int) \<le> 2" "(2::int) < int (length ?rs)" by simp_all
  note t = C3_first_max_results [OF h, of "''FireCrawl''", unfolded e]
  from t have "format_context ''FireCrawl'' ?rs 2 =
      ''Search results (via '' @ ''FireCrawl'' @ ''):\<newline>'' @
      context_entry (Suc 0) (?rs ! 0) @ context_entry (Suc (Suc 0)) (?rs ! Suc 0)"
    by (rule conjunct1)
  moreover from t have "format_sources ''FireCrawl'' ?rs 2 =
      ''\<newline>\<newline>Sources (via '' @ ''FireCrawl'' @ ''):\<newline>'' @
      citation_line (Suc 0) (?rs ! 0) @ citation_line (Suc (Suc 0)) (?rs ! Suc 0)"
    by (rule conjunct2 [THEN conjunct1])
  ultimately show ?thesis
    by (simp add: string_of_nat_examples paris_record_def markdown_record_def py_str_def
        context_entry_def citation_line_def truncate_content_def)
qed

subsection \<open>The fallback chain\<close>

lemma retained_hits_subset: "qualifying_hits response = [] \<Longrightarrow> retained_hits response = []"
proof -
  assume "qualifying_hits response = []"
  then have "\<forall>h \<in> set (response_hits response). \<not> qualifies h"
    by (simp add: qualifying_hits_def filter_empty_conv)
  then have "\<forall>h \<in> set (takeWhile (\<lambda>h. \<not> raises_on h) (response_hits response)). \<not> qualifies h"
    by (blast dest: set_takeWhileD)
  then show ?thesis
    by (simp add: retained_hits_def filter_empty_conv)
qed

lemma retained_hits_no_raise:
  "\<forall>h \<in> set (response_hits response). \<not> raises_on h \<Longrightarrow>
     retained_hits response = qualifying_hits response"
  by (simp add: retained_hits_def qualifying_hits_def takeWhile_eq_all_conv [THEN iffD2])

lemma primary_records_eq:
  "primary_records env query =
     (if firecrawl_client_init env \<noteq> None then []
      else case firecrawl_search env query of
             Inl e \<Rightarrow> []
           | Inr response \<Rightarrow> map extract_hit (retained_hits response))"
  by (simp add: primary_records_def firecrawl_try_eq split: sum.split)

lemma search_web_calls:
  assumes "openai_client_init env = None"
  shows "snd (search_web env query n) =
           snd (firecrawl_try env query) @
           (if primary_records env query = [] then snd (search_with_tavily env query n) else []) @
           (if fst (fst (gather_results env query n)) = [] then []
            else [ChatCompletion (the_request env query n)])"
proof -
  obtain results m where g: "fst (gather_results env query n) = (results, m)"
    by (cases "fst (gather_results env query n)") auto
  have c: "snd (gather_results env query n) =
      snd (firecrawl_try env query) @
      (if primary_records env query = [] then snd (search_with_tavily env query n) else [])"
    by (simp add: gather_results_eq)
  show ?thesis
  proof (cases "results = []")
    case True
    with g assms c show ?thesis by (simp add: search_web_diagnostic)
  next
    case False
    with g assms c show ?thesis by (simp add: search_web_answer)
  qed
qed

text \<open>
  C4 (as amended). With the OpenAI client built, \<open>search_web\<close> enters \<open>search_with_tavily\<close>
  once, with the query and \<open>max_results\<close>, when the primary adapter retained no record, and
  not at all otherwise. The primary adapter retains no record when the client or the search
  of provider A raises, or when no hit of the response qualifies before the first hit (if
  any) on which the test of line 70 raises; a response without a qualifying hit is such a
  response, and when the test raises on no hit these are the responses without a qualifying
  hit. The search of provider A is called once, with the query alone, when its client was
  built, and not at all otherwise.
\<close>

theorem C4_fallback_invocation:
  assumes "openai_client_init env = None"
  shows "filter is_fallback_entry (snd (search_web env query max_results)) =
           (if primary_records env query = [] then [SearchWithTavily query max_results]
            else []) \<and>
         (primary_records env query = [] \<longleftrightarrow>
            firecrawl_client_init env \<noteq> None \<or>
            (case firecrawl_search env query of
               Inl e \<Rightarrow> True
             | Inr response \<Rightarrow> retained_hits response = [])) \<and>
         (\<forall>response. qualifying_hits response = [] \<longrightarrow> retained_hits response = []) \<and>
         (\<forall>response. (\<forall>h \<in> set (response_hits response). \<not> raises_on h) \<longrightarrow>
            retained_hits response = qualifying_hits response) \<and>
         filter is_firecrawl_call (snd (search_web env query max_results)) =
           (if firecrawl_client_init env = None then [FirecrawlSearch query] else [])"
proof -
  have a: "filter is_fallback_entry (snd (search_web env query max_results)) =
      (if primary_records env query = [] then [SearchWithTavily query max_results] else [])"
    by (simp add: search_web_calls [OF assms] primary_calls fallback_calls
        is_fallback_entry_def)
  have b: "filter is_firecrawl_call (snd (search_web env query max_results)) =
      (if firecrawl_client_init env = None then [FirecrawlSearch query] else [])"
    by (simp add: search_web_calls [OF assms] primary_calls fallback_calls
        is_firecrawl_call_def)
  have c: "primary_records env query = [] \<longleftrightarrow>
      firecrawl_client_init env \<noteq> None \<or>
      (case firecrawl_search env query of
         Inl e \<Rightarrow> True
       | Inr response \<Rightarrow> retained_hits response = [])"
    by (simp add: primary_records_eq split: sum.split)
  from a b c retained_hits_subset retained_hits_no_raise show ?thesis by blast
qed

theorem C4_fallback_invocation_witness:
  "openai_client_init env_tavily = None \<and> primary_records env_tavily ''q'' = [] \<and>
   filter is_fallback_entry (snd (search_web env_tavily ''q'' 3)) = [SearchWithTavily ''q'' 3] \<and>
   filter is_firecrawl_call (snd (search_web env_tavily ''q'' 3)) = [FirecrawlSearch ''q''] \<and>
   openai_client_init env_no_keys = None \<and> primary_records env_no_keys ''q'' = [] \<and>
   filter is_fallback_entry (snd (search_web env_no_keys ''q'' 3)) = [SearchWithTavily ''q'' 3] \<and>
   filter is_firecrawl_call (snd (search_web env_no_keys ''q'' 3)) = [] \<and>
   openai_client_init env_firecrawl = None \<and> primary_records env_firecrawl ''q'' \<noteq> [] \<and>
   filter is_fallback_entry (snd (search_web env_firecrawl ''q'' 3)) = [] \<and>
   filter is_firecrawl_call (snd (search_web env_firecrawl ''q'' 3)) = [FirecrawlSearch ''q'']"
proof -
  have i: "openai_client_init env_tavily = None" "openai_client_init env_no_keys = None"
    "openai_client_init env_firecrawl = None"
    "firecrawl_client_init env_tavily = None" "firecrawl_client_init env_no_keys \<noteq> None"
    "firecrawl_client_init env_firecrawl = None"
    by (simp_all add: env_tavily_def env_no_keys_def env_firecrawl_def env_hits_simps)
  have p: "primary_records env_tavily ''q'' = []" "primary_records env_no_keys ''q'' = []"
    "primary_records env_firecrawl ''q'' \<noteq> []"
    by (simp_all add: primary_records_eq env_tavily_def env_no_keys_def env_firecrawl_def
        env_hits_simps retained_hits_def response_hits_def example_qualifies)
  from C4_fallback_invocation [OF i(1), of "''q''" 3]
    C4_fallback_invocation [OF i(2), of "''q''" 3]
    C4_fallback_invocation [OF i(3), of "''q''" 3]
    i p
  show ?thesis by simp
qed

text \<open>
  The claim as stated leaves the fallback out whenever the response of provider A holds a
  qualifying hit. For the response with the hits \<open>number_hit\<close> and \<open>paris_hit\<close>, in this order,
  the search does not raise and \<open>paris_hit\<close> qualifies, but the test of line 70 raises on
  \<open>number_hit\<close> before any record is retained, and the fallback is entered.
\<close>

theorem C4_counterexample:
  "firecrawl_client_init (env_hits [number_hit, paris_hit]) = None \<and>
   firecrawl_search (env_hits [number_hit, paris_hit]) ''q'' =
     Inr \<lparr>fc_data = Some [number_hit, paris_hit]\<rparr> \<and>
   qualifying_hits \<lparr>fc_data = Some [number_hit, paris_hit]\<rparr> = [paris_hit] \<and>
   filter is_fallback_entry (snd (search_web (env_hits [number_hit, paris_hit]) ''q'' 5)) =
     [SearchWithTavily ''q'' 5]"
proof -
  have "primary_records (env_hits [number_hit, paris_hit]) ''q'' = []"
    by (simp add: primary_records_def env_hits_retained example_qualifies)
  then have "filter is_fallback_entry
      (snd (search_web (env_hits [number_hit, paris_hit]) ''q'' 5)) =
      [SearchWithTavily ''q'' 5]"
    by (simp add: search_web_calls env_hits_simps primary_calls fallback_calls
        is_fallback_entry_def)
  then show ?thesis
    by (simp add: env_hits_simps qualifying_hits_def response_hits_def example_qualifies)
qed

subsection \<open>The primary adapter\<close>

lemma qualifies_iff:
  "qualifies h \<longleftrightarrow>
     title (extract_hit h) \<noteq> PyStr ''No title'' \<or> url (extract_hit h) \<noteq> PyStr ''No URL'' \<or>
     (content (extract_hit h) \<noteq> PyStr ''No content'' \<and>
      (\<exists>s. content (extract_hit h) = PyStr s \<and> length s > 10))"
  by (cases "content (extract_hit h)")
    (auto simp: qualifies_def has_actual_content_def py_len_def truthy_def)


text \<open>
  C5 (as amended). When the client of provider A was built, the test of line 70 raises on no
  hit of the response and at least one hit of the response qualifies, the primary adapter
  produces one record for each qualifying hit, in their order, and the label is
  \<open>FireCrawl\<close>; the fallback is not used. A hit qualifies when its extracted title is not
  \<open>No title\<close>, or its extracted url is not \<open>No URL\<close>, or its extracted content is a string
  other than \<open>No content\<close> of more than 10 characters.
\<close>

theorem C5_primary_record_count:
  assumes "firecrawl_client_init env = None"
    and "firecrawl_search env query = Inr response"
    and "\<forall>h \<in> set (response_hits response). \<not> raises_on h"
    and "qualifying_hits response \<noteq> []"
  shows "primary_records env query = map extract_hit (qualifying_hits response) \<and>
         length (primary_records env query) = length (qualifying_hits response) \<and>
         primary_label env query = ''FireCrawl'' \<and>
         gather_results env query max_results =
           ((map extract_hit (qualifying_hits response), ''FireCrawl''),
            [FirecrawlSearch query]) \<and>
         (\<forall>h. qualifies h \<longleftrightarrow>
            title (extract_hit h) \<noteq> PyStr ''No title'' \<or>
            url (extract_hit h) \<noteq> PyStr ''No URL'' \<or>
            (content (extract_hit h) \<noteq> PyStr ''No content'' \<and>
             (\<exists>s. content (extract_hit h) = PyStr s \<and> length s > 10)))"
proof -
  from assms(3) have r: "retained_hits response = qualifying_hits response"
    by (rule retained_hits_no_raise)
  from assms r have t: "firecrawl_try env query =
      ((map extract_hit (qualifying_hits response), ''FireCrawl''), [FirecrawlSearch query])"
    by (simp add: firecrawl_try_eq)
  then have p: "primary_records env query = map extract_hit (qualifying_hits response)"
    and l: "primary_label env query = ''FireCrawl''"
    by (simp_all add: primary_records_def primary_label_def)
  from t p l assms(4) have "gather_results env query max_results =
      ((map extract_hit (qualifying_hits response), ''FireCrawl''), [FirecrawlSearch query])"
    by (simp add: gather_results_eq)
  with p l qualifies_iff show ?thesis by simp
qed

theorem C5_primary_record_count_witness:
  "firecrawl_client_init env_firecrawl = None \<and>
   firecrawl_search env_firecrawl ''capital of France'' =
     Inr \<lparr>fc_data = Some [paris_hit, blank_hit, markdown_hit]\<rparr> \<and>
   response_hits \<lparr>fc_data = Some [paris_hit, blank_hit, markdown_hit]\<rparr> =
     [paris_hit, blank_hit, markdown_hit] \<and>
   \<not> raises_on paris_hit \<and> \<not> raises_on blank_hit \<and> \<not> raises_on markdown_hit \<and>
   qualifying_hits \<lparr>fc_data = Some [paris_hit, blank_hit, markdown_hit]\<rparr> =
     [paris_hit, markdown_hit] \<and>
   primary_records env_firecrawl ''capital of France'' = [paris_record, markdown_record] \<and>
   length (primary_records env_firecrawl ''capital of France'') = 2 \<and>
   primary_label env_firecrawl ''capital of France'' = ''FireCrawl''"
proof -
  let ?r = "\<lparr>fc_data = Some [paris_hit, blank_hit, markdown_hit]\<rparr>"
  have a: "firecrawl_client_init env_firecrawl = None"
    and b: "firecrawl_search env_firecrawl ''capital of France'' = Inr ?r"
    by (simp_all add: env_firecrawl_def env_hits_simps)
  have c: "\<forall>h \<in> set (response_hits ?r). \<not> raises_on h"
    by (simp add: response_hits_def example_qualifies)
  have q: "qualifying_hits ?r = [paris_hit, markdown_hit]"
    by (simp add: qualifying_hits_def response_hits_def example_qualifies)
  then have d: "qualifying_hits ?r \<noteq> []" by simp
  from C5_primary_record_count [OF a b c d, of 5] a b q show ?thesis
    by (simp add: example_hits example_qualifies response_hits_def)
qed

text \<open>
  The claim as stated covers every response with a hit whose title, url or content is not a
  placeholder. The only hit of the response below has the content \<open>short\<close>, which is not the
  placeholder \<open>No content\<close>, but it does not pass the test of line 70: the primary adapter
  produces no record, leaves the label \<open>Unknown\<close>, and the records come from the fallback.
\<close>

theorem C5_counterexample:
  "firecrawl_search (env_hits [short_hit]) ''q'' = Inr \<lparr>fc_data = Some [short_hit]\<rparr> \<and>
   content (extract_hit short_hit) = PyStr ''short'' \<and>
   content (extract_hit short_hit) \<noteq> PyStr ''No content'' \<and>
   firecrawl_try (env_hits [short_hit]) ''q'' = (([], ''Unknown''), [FirecrawlSearch ''q'']) \<and>
   snd (fst (gather_results (env_hits [short_hit]) ''q'' 5)) = ''Tavily''"
proof -
  have t: "firecrawl_try (env_hits [short_hit]) ''q'' =
      (([], ''Unknown''), [FirecrawlSearch ''q''])"
    by (simp add: env_hits_retained example_qualifies)
  then have "snd (fst (gather_results (env_hits [short_hit]) ''q'' 5)) = ''Tavily''"
    by (simp add: gather_results_eq primary_records_def fallback_records_def
        env_hits_fallback)
  moreover have "content (extract_hit short_hit) = PyStr ''short''"
    by (simp add: extract_hit_def short_hit_def py_or_def truthy_def)
  ultimately show ?thesis using t by (simp add: env_hits_simps)
qed




subsection \<open>Exceptions\<close>

lemma search_web_cong:
  assumes "openai_client_init env' = openai_client_init env"
    and "chat_completion env' = chat_completion env"
    and "gather_results env' query n = gather_results env query n"
  shows "search_web env' query n = search_web env query n"
  unfolding search_web_def call_chat_completion_def assms by (rule refl)

lemma fst_search_web_cong:
  assumes "openai_client_init env' = openai_client_init env"
    and "chat_completion env' = chat_completion env"
    and "fst (gather_results env' query n) = fst (gather_results env query n)"
  shows "fst (search_web env' query n) = fst (search_web env query n)"
proof (cases "openai_client_init env")
  case (Some e)
  with assms(1) show ?thesis by (simp add: search_web_def)
next
  case None
  with assms(1) have n: "openai_client_init env' = None" by simp
  obtain results m where g: "fst (gather_results env query n) = (results, m)"
    by (cases "fst (gather_results env query n)") auto
  with assms(3) have g': "fst (gather_results env' query n) = (results, m)" by simp
  from g g' have r: "the_request env' query n = the_request env query n"
    by (simp add: the_request_def)
  show ?thesis
  proof (cases "results = []")
    case True
    with None n g g' show ?thesis by (simp add: search_web_diagnostic)
  next
    case False
    with None n g g' r assms(2) show ?thesis by (simp add: search_web_answer)
  qed
qed

lemma search_web_raises:
  assumes "fst (search_web env query n) = Inl e"
  shows "openai_client_init env = Some e \<or>
         (fst (fst (gather_results env query n)) \<noteq> [] \<and>
          (case chat_completion env (the_request env query n) of
             Inl e' \<Rightarrow> e' = e
           | Inr response \<Rightarrow> \<exists>s. assemble response s = Inl e))"
proof (cases "openai_client_init env")
  case (Some e')
  with assms show ?thesis by (simp add: search_web_def)
next
  case None
  obtain results m where g: "fst (gather_results env query n) = (results, m)"
    by (cases "fst (gather_results env query n)") auto
  show ?thesis
  proof (cases "results = []")
    case True
    with None g assms show ?thesis by (simp add: search_web_diagnostic)
  next
    case False
    with None g assms show ?thesis
      by (auto simp: search_web_answer split: sum.splits)
  qed
qed

text \<open>
  C7. An exception of the FireCrawl search leaves zero records and the initial label, and
  \<open>search_web\<close> as a whole does what it does for an empty FireCrawl response; an exception of
  the Tavily search makes \<open>search_with_tavily\<close> return the empty list, and \<open>search_web\<close> does
  what it does for an empty Tavily response. The same holds for an exception of either
  constructor, up to the search call that is then not made. So whenever \<open>search_web\<close>
  raises, the exception comes from building the OpenAI client or from the completion step.
  An exception of the completion call is raised by \<open>search_web\<close>.
\<close>

theorem C7_exception_asymmetry:
  "(firecrawl_search env query = Inl e \<longrightarrow>
      fst (firecrawl_try env query) = ([], ''Unknown'') \<and>
      search_web env query n =
        search_web (env\<lparr>firecrawl_search := \<lambda>q. Inr \<lparr>fc_data = Some []\<rparr>\<rparr>) query n) \<and>
   (firecrawl_client_init env = Some e \<longrightarrow>
      firecrawl_try env query = (([], ''Unknown''), []) \<and>
      fst (search_web env query n) =
        fst (search_web (env\<lparr>firecrawl_client_init := None,
                              firecrawl_search := \<lambda>q. Inr \<lparr>fc_data = Some []\<rparr>\<rparr>) query n)) \<and>
   (tavily_search env query n = Inl e \<longrightarrow>
      fst (search_with_tavily env query n) = [] \<and>
      search_web env query n =
        search_web (env\<lparr>tavily_search := \<lambda>q k. Inr \<lparr>tv_results = Some []\<rparr>\<rparr>) query n) \<and>
   (tavily_client_init env = Some e \<longrightarrow>
      search_with_tavily env query n = ([], [SearchWithTavily query n]) \<and>
      fst (search_web env query n) =
        fst (search_web (env\<lparr>tavily_client_init := None,
                              tavily_search := \<lambda>q k. Inr \<lparr>tv_results = Some []\<rparr>\<rparr>) query n)) \<and>
   (fst (search_web env query n) = Inl e \<longrightarrow>
      openai_client_init env = Some e \<or>
      (fst (fst (gather_results env query n)) \<noteq> [] \<and>
       (case chat_completion env (the_request env query n) of
          Inl e' \<Rightarrow> e' = e
        | Inr response \<Rightarrow> \<exists>s. assemble response s = Inl e))) \<and>
   (openai_client_init env = None \<and> fst (fst (gather_results env query n)) \<noteq> [] \<and>
    chat_completion env (the_request env query n) = Inl e \<longrightarrow>
      fst (search_web env query n) = Inl e)"
proof -
  have a: "fst (firecrawl_try env query) = ([], ''Unknown'') \<and>
      search_web env query n =
        search_web (env\<lparr>firecrawl_search := \<lambda>q. Inr \<lparr>fc_data = Some []\<rparr>\<rparr>) query n"
    if f: "firecrawl_search env query = Inl e"
  proof -
    let ?env = "env\<lparr>firecrawl_search := \<lambda>q. Inr \<lparr>fc_data = Some []\<rparr>\<rparr>"
    have "firecrawl_try ?env query = firecrawl_try env query"
      using f by (simp add: firecrawl_try_eq retained_hits_def response_hits_def)
    moreover have "search_with_tavily ?env query n = search_with_tavily env query n"
      by (simp add: search_with_tavily_eq)
    ultimately have "gather_results ?env query n = gather_results env query n"
      by (simp add: gather_results_eq primary_records_def primary_label_def
          fallback_records_def)
    then have "search_web ?env query n = search_web env query n"
      by (intro search_web_cong) simp_all
    moreover from f have "fst (firecrawl_try env query) = ([], ''Unknown'')"
      by (simp add: firecrawl_try_eq)
    ultimately show ?thesis by simp
  qed
  have a': "firecrawl_try env query = (([], ''Unknown''), []) \<and>
      fst (search_web env query n) =
        fst (search_web (env\<lparr>firecrawl_client_init := None,
                              firecrawl_search := \<lambda>q. Inr \<lparr>fc_data = Some []\<rparr>\<rparr>) query n)"
    if f: "firecrawl_client_init env = Some e"
  proof -
    let ?env = "env\<lparr>firecrawl_client_init := None,
                     firecrawl_search := \<lambda>q. Inr \<lparr>fc_data = Some []\<rparr>\<rparr>"
    from f have t: "firecrawl_try env query = (([], ''Unknown''), [])"
      by (simp add: firecrawl_try_eq)
    have "fst (firecrawl_try ?env query) = ([], ''Unknown'')"
      by (simp add: firecrawl_try_eq retained_hits_def response_hits_def)
    moreover have "search_with_tavily ?env query n = search_with_tavily env query n"
      by (simp add: search_with_tavily_eq)
    ultimately have "fst (gather_results ?env query n) = fst (gather_results env query n)"
      using t
      by (simp add: gather_results_eq primary_records_def primary_label_def
          fallback_records_def)
    then have "fst (search_web ?env query n) = fst (search_web env query n)"
      by (intro fst_search_web_cong) simp_all
    with t show ?thesis by simp
  qed
  have b: "fst (search_with_tavily env query n) = [] \<and>
      search_web env query n =
        search_web (env\<lparr>tavily_search := \<lambda>q k. Inr \<lparr>tv_results = Some []\<rparr>\<rparr>) query n"
    if f: "tavily_search env query n = Inl e"
  proof -
    let ?env = "env\<lparr>tavily_search := \<lambda>q k. Inr \<lparr>tv_results = Some []\<rparr>\<rparr>"
    from f have "search_with_tavily ?env query n = search_with_tavily env query n"
      by (simp add: search_with_tavily_eq)
    moreover have "firecrawl_try ?env query = firecrawl_try env query"
      by (simp add: firecrawl_try_eq)
    ultimately have "gather_results ?env query n = gather_results env query n"
      by (simp add: gather_results_eq primary_records_def primary_label_def
          fallback_records_def)
    then have "search_web ?env query n = search_web env query n"
      by (intro search_web_cong) simp_all
    moreover from f have "fst (search_with_tavily env query n) = []"
      by (simp add: search_with_tavily_eq)
    ultimately show ?thesis by simp
  qed
  have b': "search_with_tavily env query n = ([], [SearchWithTavily query n]) \<and>
      fst (search_web env query n) =
        fst (search_web (env\<lparr>tavily_client_init := None,
                              tavily_search := \<lambda>q k. Inr \<lparr>tv_results = Some []\<rparr>\<rparr>) query n)"
    if f: "tavily_client_init env = Some e"
  proof -
    let ?env = "env\<lparr>tavily_client_init := None,
                     tavily_search := \<lambda>q k. Inr \<lparr>tv_results = Some []\<rparr>\<rparr>"
    from f have t: "search_with_tavily env query n = ([], [SearchWithTavily query n])"
      by (simp add: search_with_tavily_eq)
    have "fst (search_with_tavily ?env query n) = []"
      by (simp add: search_with_tavily_eq)
    moreover have "firecrawl_try ?env query = firecrawl_try env query"
      by (simp add: firecrawl_try_eq)
    ultimately have "fst (gather_results ?env query n) = fst (gather_results env query n)"
      using t
      by (simp add: gather_results_eq primary_records_def primary_label_def
          fallback_records_def)
    then have "fst (search_web ?env query n) = fst (search_web env query n)"
      by (intro fst_search_web_cong) simp_all
    with t show ?thesis by simp
  qed
  have c: "fst (search_web env query n) = Inl e"
    if "openai_client_init env = None" and "fst (fst (gather_results env query n)) \<noteq> []"
      and "chat_completion env (the_request env query n) = Inl e"
  proof -
    obtain results m where g: "fst (gather_results env query n) = (results, m)"
      by (cases "fst (gather_results env query n)") auto
    with that show ?thesis by (simp add: search_web_answer)
  qed
  from a a' b b' c search_web_raises [of env query n e] show ?thesis by blast
qed

theorem C7_exception_asymmetry_witness:
  "firecrawl_search env_both_raise ''q'' = Inl (PyException ''Timeout'') \<and>
   fst (firecrawl_try env_both_raise ''q'') = ([], ''Unknown'') \<and>
   tavily_search env_both_raise ''q'' 5 = Inl (PyException ''HTTPError'') \<and>
   fst (search_with_tavily env_both_raise ''q'' 5) = [] \<and>
   fst (search_web env_both_raise ''q'' 5) = Inr (diagnostic_message ''q'') \<and>
   firecrawl_client_init env_no_keys = Some (PyException ''ValueError'') \<and>
   firecrawl_try env_no_keys ''q'' = (([], ''Unknown''), []) \<and>
   tavily_client_init env_no_keys = Some (PyException ''MissingAPIKeyError'') \<and>
   search_with_tavily env_no_keys ''q'' 5 = ([], [SearchWithTavily ''q'' 5]) \<and>
   openai_client_init env_completion_raises = None \<and>
   fst (fst (gather_results env_completion_raises ''q'' 5)) \<noteq> [] \<and>
   chat_completion env_completion_raises (the_request env_completion_raises ''q'' 5) =
     Inl (PyException ''RateLimitError'') \<and>
   fst (search_web env_completion_raises ''q'' 5) = Inl (PyException ''RateLimitError'')"
proof -
  have g: "fst (fst (gather_results env_completion_raises ''q'' 5)) \<noteq> []"
    by (simp add: gather_results_eq primary_records_def firecrawl_try_eq
        env_completion_raises_def env_firecrawl_def env_hits_simps retained_hits_def
        response_hits_def example_qualifies)
  have i: "openai_client_init env_both_raise = None"
    by (simp add: env_both_raise_def env_hits_simps)
  have "gather_results env_both_raise ''q'' 5 =
      (([], ''Unknown''),
       [FirecrawlSearch ''q'', SearchWithTavily ''q'' 5, TavilySearch ''q'' 5 False False])"
    by (simp add: gather_results_eq primary_records_def primary_label_def
        fallback_records_def firecrawl_try_eq search_with_tavily_eq env_both_raise_def
        env_hits_simps)
  with i have d: "fst (search_web env_both_raise ''q'' 5) = Inr (diagnostic_message ''q'')"
    by (simp add: search_web_diagnostic)
  have s: "firecrawl_search env_both_raise ''q'' = Inl (PyException ''Timeout'')"
    "tavily_search env_both_raise ''q'' 5 = Inl (PyException ''HTTPError'')"
    "firecrawl_client_init env_no_keys = Some (PyException ''ValueError'')"
    "tavily_client_init env_no_keys = Some (PyException ''MissingAPIKeyError'')"
    "openai_client_init env_completion_raises = None"
    "chat_completion env_completion_raises r = Inl (PyException ''RateLimitError'')" for r
    by (simp_all add: env_both_raise_def env_no_keys_def env_completion_raises_def
        env_firecrawl_def env_hits_simps)
  note t = C7_exception_asymmetry [of env_both_raise "''q''" "PyException ''Timeout''" 5]
  note u = C7_exception_asymmetry [of env_both_raise "''q''" "PyException ''HTTPError''" 5]
  note v = C7_exception_asymmetry [of env_no_keys "''q''" "PyException ''ValueError''" 5]
  note w = C7_exception_asymmetry [of env_no_keys "''q''" "PyException ''MissingAPIKeyError''" 5]
  note x = C7_exception_asymmetry
    [of env_completion_raises "''q''" "PyException ''RateLimitError''" 5]
  from t s(1) have "fst (firecrawl_try env_both_raise ''q'') = ([], ''Unknown'')" by blast
  moreover from u s(2) have "fst (search_with_tavily env_both_raise ''q'' 5) = []" by blast
  moreover from v s(3) have "firecrawl_try env_no_keys ''q'' = (([], ''Unknown''), [])"
    by blast
  moreover from w s(4) have
    "search_with_tavily env_no_keys ''q'' 5 = ([], [SearchWithTavily ''q'' 5])"
    by blast
  moreover from x s(5,6) g have
    "fst (search_web env_completion_raises ''q'' 5) = Inl (PyException ''RateLimitError'')"
    by blast
  ultimately show ?thesis using s d g by simp
qed

subsection \<open>The success path\<close>

text \<open>
  C8. When the OpenAI client was built, the adapters produced at least one record and the
  completion endpoint answered a text, \<open>search_web\<close> returns that text without the white
  space around it, then an empty line, then the line \<open>Sources (via m):\<close> with the label \<open>m\<close>,
  then one line \<open>[i] title - url\<close> for each record of \<^verbatim>\<open>results[:max_results]\<close>, numbered
  from 1. The stripped text is the answer without a prefix and a suffix of white space, and
  neither starts nor ends with white space.
\<close>

theorem C8_answer_with_citations:
  assumes "openai_client_init env = None"
    and "fst (gather_results env query n) = (results, m)"
    and "results \<noteq> []"
    and "chat_completion env (the_request env query n) = Inr response"
    and "choices response = Some answer # others"
  shows "fst (search_web env query n) =
           Inr (strip answer @ ''\<newline>\<newline>'' @ ''Sources (via '' @ m @ ''):\<newline>'' @
                concat (map (\<lambda>k. ''['' @ string_of_nat (Suc k) @ ''] '' @
                                   py_str (title (py_slice_to results n ! k)) @ '' - '' @
                                   py_str (url (py_slice_to results n ! k)) @ ''\<newline>'')
                          [0..<length (py_slice_to results n)])) \<and>
         (\<exists>a b. answer = a @ strip answer @ b \<and>
                (\<forall>c \<in> set a. is_space c) \<and> (\<forall>c \<in> set b. is_space c)) \<and>
         (strip answer \<noteq> [] \<longrightarrow>
            \<not> is_space (hd (strip answer)) \<and> \<not> is_space (last (strip answer)))"
proof -
  from assms have "fst (search_web env query n) =
      Inr (strip answer @ format_sources m results n)"
    by (simp add: search_web_answer assemble_Some)
  then have "fst (search_web env query n) =
           Inr (strip answer @ ''\<newline>\<newline>'' @ ''Sources (via '' @ m @ ''):\<newline>'' @
                concat (map (\<lambda>k. ''['' @ string_of_nat (Suc k) @ ''] '' @
                                   py_str (title (py_slice_to results n ! k)) @ '' - '' @
                                   py_str (url (py_slice_to results n ! k)) @ ''\<newline>'')
                          [0..<length (py_slice_to results n)]))"
    by (simp add: format_sources_eq citation_line_def)
  with strip_decompose [of answer] strip_ends [of answer] show ?thesis by blast
qed

theorem C8_answer_with_citations_witness:
  "openai_client_init env_firecrawl = None \<and>
   fst (gather_results env_firecrawl ''capital of France'' 5) =
     ([paris_record, markdown_record], ''FireCrawl'') \<and>
   chat_completion env_firecrawl (the_request env_firecrawl ''capital of France'' 5) =
     Inr \<lparr>choices = [Some '' Paris [1].\<newline>'']\<rparr> \<and>
   fst (search_web env_firecrawl ''capital of France'' 5) =
     Inr (''Paris [1].'' @ ''\<newline>\<newline>'' @ ''Sources (via FireCrawl):\<newline>'' @
          ''[1] Paris - https://x\<newline>'' @ ''[2] No title - No URL\<newline>'')"
proof -
  let ?q = "''capital of France''"
  have i: "openai_client_init env_firecrawl = None"
    by (simp add: env_firecrawl_def env_hits_simps)
  have g: "fst (gather_results env_firecrawl ?q 5) =
      ([paris_record, markdown_record], ''FireCrawl'')"
    by (simp add: gather_results_env_firecrawl)
  have ne: "[paris_record, markdown_record] \<noteq> []" by simp
  have c: "chat_completion env_firecrawl (the_request env_firecrawl ?q 5) =
      Inr \<lparr>choices = [Some '' Paris [1].\<newline>'']\<rparr>"
    by (simp add: env_firecrawl_def env_hits_simps)
  have ch: "choices \<lparr>choices = [Some '' Paris [1].\<newline>'']\<rparr> = Some '' Paris [1].\<newline>'' # []"
    by simp
  have e: "concat (map f [0..<2]) = f 0 @ f (Suc 0)" for f :: "nat \<Rightarrow> string"
    by (simp add: upt_rec)
  from C8_answer_with_citations [OF i g ne c ch]
  have "fst (search_web env_firecrawl ?q 5) =
     Inr (''Paris [1].'' @ ''\<newline>\<newline>'' @ ''Sources (via FireCrawl):\<newline>'' @
          ''[1] Paris - https://x\<newline>'' @ ''[2] No title - No URL\<newline>'')"
    by (simp add: py_slice_to_def e string_of_nat_examples strip_example py_str_def
        paris_record_def markdown_record_def)
  with i g c show ?thesis by simp
qed

subsection \<open>The label of a returned answer\<close>

lemma search_web_returns:
  assumes "fst (gather_results env query n) = (results, m)"
    and "results \<noteq> []"
    and "fst (search_web env query n) = Inr s"
  shows "\<exists>answer. s = strip answer @ format_sources m results n"
proof (cases "openai_client_init env")
  case (Some e)
  with assms(3) show ?thesis by (simp add: search_web_def)
next
  case None
  from search_web_answer [OF None assms(1,2)] assms(3)
  obtain response where "assemble response (format_sources m results n) = Inr s"
    by (auto split: sum.splits)
  then show ?thesis
    by (auto simp: assemble_def split: list.splits option.splits)
qed

text \<open>
  What the code does for the label: it is \<open>Unknown\<close> with no record, \<open>Tavily\<close> with the
  records of the fallback, and with the records of the primary adapter it is \<open>FireCrawl\<close>
  when the loop over the hits ended normally and \<open>Unknown\<close> when the test of line 70 raised
  after a record was retained.
\<close>

lemma gather_results_label:
  assumes "fst (gather_results env query n) = (results, m)"
  shows "(results = [] \<longrightarrow> m = ''Unknown'') \<and>
         (results \<noteq> [] \<longrightarrow> m = ''FireCrawl'' \<or> m = ''Tavily'' \<or>
            (m = ''Unknown'' \<and> results = primary_records env query \<and>
             (\<exists>response. firecrawl_search env query = Inr response \<and>
                (\<exists>h \<in> set (response_hits response). raises_on h))))"
proof (cases "primary_records env query = []")
  case True
  with assms show ?thesis by (auto simp: gather_results_eq split: if_splits)
next
  case False
  with assms have r: "results = primary_records env query"
    and l: "m = primary_label env query"
    by (simp_all add: gather_results_eq)
  from False have "primary_label env query = ''FireCrawl'' \<or>
      (primary_label env query = ''Unknown'' \<and>
       (\<exists>response. firecrawl_search env query = Inr response \<and>
          (\<exists>h \<in> set (response_hits response). raises_on h)))"
    by (auto simp: primary_label_def primary_records_def firecrawl_try_eq
        split: sum.splits if_splits)
  with False r l show ?thesis by auto
qed

text \<open>
  C9. The code breaks the claim. FireCrawl answers the hits \<open>paris_hit\<close> and \<open>number_hit\<close>:
  the first is retained, the test of line 70 raises \<^verbatim>\<open>TypeError\<close> on the second, whose
  markdown is a number, and the handler of line 80 swallows it. Line 78 is not reached, the
  list of records is not empty, so neither the fallback nor the diagnostic path is taken, and
  the label \<open>Unknown\<close> stands in the context and the prompt sent to the completion endpoint
  and in the citation block of the returned answer.
\<close>

theorem C9_unknown_label_returned:
  "gather_results (env_hits [paris_hit, number_hit]) ''q'' 5 =
     (([paris_record], ''Unknown''), [FirecrawlSearch ''q'']) \<and>
   the_request (env_hits [paris_hit, number_hit]) ''q'' 5 =
     completion_request
       (build_prompt ''q''
          (''Search results (via Unknown):\<newline>'' @
           ''[1] Source: https://x\<newline> Title: Paris\<newline> Content: Paris is the capital of France\<newline>\<newline>'')
          ''Unknown'') \<and>
   search_web (env_hits [paris_hit, number_hit]) ''q'' 5 =
     (Inr (''Paris [1].'' @ ''\<newline>\<newline>Sources (via Unknown):\<newline>'' @ ''[1] Paris - https://x\<newline>''),
      [FirecrawlSearch ''q'',
       ChatCompletion (the_request (env_hits [paris_hit, number_hit]) ''q'' 5)])"
proof -
  let ?env = "env_hits [paris_hit, number_hit]"
  have g: "gather_results ?env ''q'' 5 = (([paris_record], ''Unknown''), [FirecrawlSearch ''q''])"
    by (simp add: gather_results_eq primary_records_def primary_label_def env_hits_retained
        example_qualifies example_hits)
  then have r: "the_request ?env ''q'' 5 =
     completion_request
       (build_prompt ''q''
          (''Search results (via Unknown):\<newline>'' @
           ''[1] Source: https://x\<newline> Title: Paris\<newline> Content: Paris is the capital of France\<newline>\<newline>'')
          ''Unknown'')"
    by (simp add: the_request_def format_context_def py_slice_to_def context_entry_def
        truncate_content_def py_str_def paris_record_def string_of_nat_examples)
  have s: "format_sources ''Unknown'' [paris_record] 5 =
      ''\<newline>\<newline>Sources (via Unknown):\<newline>'' @ ''[1] Paris - https://x\<newline>''"
    by (simp add: format_sources_def py_slice_to_def citation_line_def py_str_def
        paris_record_def string_of_nat_examples)
  have "search_web ?env ''q'' 5 =
     (Inr (strip '' Paris [1].\<newline>'' @ format_sources ''Unknown'' [paris_record] 5),
      [FirecrawlSearch ''q''] @ [ChatCompletion (the_request ?env ''q'' 5)])"
    using g
    by (simp add: search_web_answer [where results = "[paris_record]" and m = "''Unknown''"]
        env_hits_simps assemble_def)
  with g r show ?thesis
    by (simp only: s strip_example append.simps simp_thms)
qed

subsection \<open>A bound that is not positive\<close>

lemma py_slice_to_nonpositive:
  "n \<le> 0 \<Longrightarrow>
     py_slice_to xs n = take (if n = 0 then 0 else length xs - nat (- n)) xs \<and>
     length (py_slice_to xs n) = (if n = 0 then 0 else length xs - nat (- n))"
  by (auto simp: py_slice_to_def)

text \<open>
  C10 (as amended). With \<open>max_results \<le> 0\<close>, the OpenAI client built, at least one record and
  a completion that answers a text, \<open>search_web\<close> does not return the diagnostic text: it
  calls the completion endpoint and returns the stripped answer followed by the
  \<open>Sources (via m):\<close> header. The context and the citation block hold the first
  \<open>length results - nat (- max_results)\<close> records when \<open>max_results\<close> is negative, as Python's
  \<^verbatim>\<open>results[:max_results]\<close> drops that many records from the end, and none when
  \<open>max_results\<close> is 0; so they hold no entry exactly when \<open>max_results\<close> is 0 or there are at
  most \<open>- max_results\<close> records.
\<close>

theorem C10_nonpositive_max_results:
  assumes "openai_client_init env = None"
    and "fst (gather_results env query n) = (results, m)"
    and "results \<noteq> []"
    and "n \<le> 0"
    and "chat_completion env (the_request env query n) = Inr response"
    and "choices response = Some answer # others"
    and "kept = (if n = 0 then 0 else length results - nat (- n))"
  shows "snd (search_web env query n) =
           snd (gather_results env query n) @ [ChatCompletion (the_request env query n)] \<and>
         the_request env query n =
           completion_request
             (build_prompt query
                (''Search results (via '' @ m @ ''):\<newline>'' @
                 concat (map (\<lambda>k. context_entry (Suc k) (results ! k)) [0..<kept]))
                m) \<and>
         fst (search_web env query n) =
           Inr (strip answer @ ''\<newline>\<newline>Sources (via '' @ m @ ''):\<newline>'' @
                concat (map (\<lambda>k. citation_line (Suc k) (results ! k)) [0..<kept])) \<and>
         (kept = 0 \<longleftrightarrow> n = 0 \<or> int (length results) \<le> - n) \<and>
         (kept = 0 \<longrightarrow>
            the_request env query n =
              completion_request
                (build_prompt query (''Search results (via '' @ m @ ''):\<newline>'') m) \<and>
            fst (search_web env query n) =
              Inr (strip answer @ ''\<newline>\<newline>Sources (via '' @ m @ ''):\<newline>''))"
proof -
  from assms(4,7) have s: "py_slice_to results n = take kept results"
    and l: "length (py_slice_to results n) = kept"
    by (simp_all add: py_slice_to_nonpositive)
  have c: "format_context m results n =
      ''Search results (via '' @ m @ ''):\<newline>'' @
      concat (map (\<lambda>k. context_entry (Suc k) (results ! k)) [0..<kept])"
    unfolding format_context_eq l by (simp add: s concat_map_take_nth)
  have d: "format_sources m results n =
      ''\<newline>\<newline>Sources (via '' @ m @ ''):\<newline>'' @
      concat (map (\<lambda>k. citation_line (Suc k) (results ! k)) [0..<kept])"
    unfolding format_sources_eq l by (simp add: s concat_map_take_nth)
  have r: "the_request env query n =
      completion_request
        (build_prompt query
           (''Search results (via '' @ m @ ''):\<newline>'' @
            concat (map (\<lambda>k. context_entry (Suc k) (results ! k)) [0..<kept]))
           m)"
    using assms(2) c by (simp add: the_request_def)
  have w: "search_web env query n =
      (Inr (strip answer @ format_sources m results n),
       snd (gather_results env query n) @ [ChatCompletion (the_request env query n)])"
    using assms(1-3,5,6) by (simp add: search_web_answer assemble_Some)
  have k: "kept = 0 \<longleftrightarrow> n = 0 \<or> int (length results) \<le> - n"
    using assms(3,4,7) by auto
  have z: "the_request env query n =
        completion_request
          (build_prompt query (''Search results (via '' @ m @ ''):\<newline>'') m) \<and>
      fst (search_web env query n) =
        Inr (strip answer @ ''\<newline>\<newline>Sources (via '' @ m @ ''):\<newline>'')"
    if "kept = 0"
    using that r w d by simp
  from w have "snd (search_web env query n) =
      snd (gather_results env query n) @ [ChatCompletion (the_request env query n)]"
    by simp
  moreover from w d have "fst (search_web env query n) =
      Inr (strip answer @ ''\<newline>\<newline>Sources (via '' @ m @ ''):\<newline>'' @
           concat (map (\<lambda>k. citation_line (Suc k) (results ! k)) [0..<kept]))"
    by simp
  ultimately show ?thesis using r k z by blast
qed

theorem C10_nonpositive_max_results_witness:
  "openai_client_init env_firecrawl = None \<and>
   fst (gather_results env_firecrawl ''q'' 0) =
     ([paris_record, markdown_record], ''FireCrawl'') \<and>
   chat_completion env_firecrawl (the_request env_firecrawl ''q'' 0) =
     Inr \<lparr>choices = [Some '' Paris [1].\<newline>'']\<rparr> \<and>
   the_request env_firecrawl ''q'' 0 =
     completion_request
       (build_prompt ''q'' ''Search results (via FireCrawl):\<newline>'' ''FireCrawl'') \<and>
   search_web env_firecrawl ''q'' 0 =
     (Inr ''Paris [1].\<newline>\<newline>Sources (via FireCrawl):\<newline>'',
      [FirecrawlSearch ''q'', ChatCompletion (the_request env_firecrawl ''q'' 0)]) \<and>
   fst (search_web env_firecrawl ''q'' (- 2)) =
     Inr ''Paris [1].\<newline>\<newline>Sources (via FireCrawl):\<newline>''"
proof -
  have i: "openai_client_init env_firecrawl = None"
    by (simp add: env_firecrawl_def env_hits_simps)
  have g: "fst (gather_results env_firecrawl ''q'' n) =
      ([paris_record, markdown_record], ''FireCrawl'')" for n
    by (simp add: gather_results_env_firecrawl)
  have c: "chat_completion env_firecrawl r =
      Inr \<lparr>choices = [Some '' Paris [1].\<newline>'']\<rparr>" for r
    by (simp add: env_firecrawl_def env_hits_simps)
  have ne: "[paris_record, markdown_record] \<noteq> []"
    by simp
  have ch: "choices \<lparr>choices = [Some '' Paris [1].\<newline>'']\<rparr> = Some '' Paris [1].\<newline>'' # []"
    by simp
  have le: "(0::int) \<le> 0" "(- 2::int) \<le> 0"
    by simp_all
  note z = C10_nonpositive_max_results [OF i g ne le(1) c ch refl]
  note m = C10_nonpositive_max_results [OF i g ne le(2) c ch refl]
  from z have "the_request env_firecrawl ''q'' 0 =
      completion_request
        (build_prompt ''q'' ''Search results (via FireCrawl):\<newline>'' ''FireCrawl'')"
    by simp
  moreover from z have "search_web env_firecrawl ''q'' 0 =
     (Inr ''Paris [1].\<newline>\<newline>Sources (via FireCrawl):\<newline>'',
      [FirecrawlSearch ''q'', ChatCompletion (the_request env_firecrawl ''q'' 0)])"
    by (simp add: strip_example prod_eq_iff gather_results_env_firecrawl)
  moreover from m have "fst (search_web env_firecrawl ''q'' (- 2)) =
     Inr ''Paris [1].\<newline>\<newline>Sources (via FireCrawl):\<newline>''"
    by (simp add: strip_example)
  ultimately show ?thesis
    by (simp add: i c g)
qed

text \<open>
  The claim as stated promises zero entries for every \<open>max_results \<le> 0\<close>. With the two
  records of \<open>env_firecrawl\<close> and \<open>max_results = - 1\<close> the context sent to the completion
  endpoint holds the first record, and the returned string has one citation line.
\<close>

theorem C10_counterexample:
  "openai_client_init env_firecrawl = None \<and>
   length (fst (fst (gather_results env_firecrawl ''q'' (- 1)))) = 2 \<and>
   format_context ''FireCrawl'' (fst (fst (gather_results env_firecrawl ''q'' (- 1)))) (- 1) =
     ''Search results (via FireCrawl):\<newline>'' @
     ''[1] Source: https://x\<newline> Title: Paris\<newline> Content: Paris is the capital of France\<newline>\<newline>'' \<and>
   fst (search_web env_firecrawl ''q'' (- 1)) =
     Inr (''Paris [1].\<newline>\<newline>Sources (via FireCrawl):\<newline>'' @ ''[1] Paris - https://x\<newline>'')"
proof -
  have i: "openai_client_init env_firecrawl = None"
    by (simp add: env_firecrawl_def env_hits_simps)
  have c: "chat_completion env_firecrawl r = Inr \<lparr>choices = [Some '' Paris [1].\<newline>'']\<rparr>" for r
    by (simp add: env_firecrawl_def env_hits_simps)
  have g: "fst (gather_results env_firecrawl ''q'' (- 1)) =
      ([paris_record, markdown_record], ''FireCrawl'')"
    by (simp add: gather_results_env_firecrawl)
  have "fst (search_web env_firecrawl ''q'' (- 1)) =
     Inr (''Paris [1].\<newline>\<newline>Sources (via FireCrawl):\<newline>'' @ ''[1] Paris - https://x\<newline>'')"
    by (simp add: search_web_answer [OF i g] c assemble_def strip_example
        format_sources_def py_slice_to_def citation_line_def string_of_nat_examples
        py_str_def paris_record_def)
  then show ?thesis
    by (simp add: i g format_context_def py_slice_to_def context_entry_def
        truncate_content_def string_of_nat_examples py_str_def paris_record_def)
qed

end
